theory Spec2Isabelle
  imports Complex_Main "HOL-Library.Multiset"
begin

section \<open>Data model (shared/schema.ts)\<close>

text \<open>
  A JavaScript number is represented by the rational number it denotes, and so is a
  decimal quantity (the \<open>decimal(10,2)\<close> columns, which at run time hold either a
  number or a decimal string). The percentages are numbers: the insert schema declares
  them \<open>z.number().min(0).max(100)\<close>, which admits fractions. Dates are the \<open>text\<close>
  columns and stay strings. A \<open>createdAt\<close> timestamp is a number of milliseconds. The
  \<open>password\<close> of a user and the fields of a sale are those that \<open>storage.ts\<close> and the
  sale form use.
\<close>

type_synonym number = rat

type_synonym decimal = rat

record insertUser =
  username :: string
  displayName :: string
  role :: string
  password :: "string option"

record user = insertUser +
  user_id :: string

record insertInvestment =
  name :: string
  symbol :: "string option"
  investmentType :: string
  initialValue :: decimal
  currentValue :: decimal
  allePercentage :: number
  aliPercentage :: number
  purchaseDate :: string
  createdBy :: string

record investment = insertInvestment +
  investment_id :: string
  investment_createdAt :: nat

record insertTransaction =
  action :: string
  investmentId :: "string option"
  investmentName :: string
  amount :: decimal
  date :: string
  userId :: string

record transaction = insertTransaction +
  transaction_id :: string
  transaction_createdAt :: nat

record insertSale =
  sale_investmentId :: string
  sale_investmentName :: string
  saleAmount :: decimal
  salePrice :: decimal
  sale_allePercentage :: number
  sale_aliPercentage :: number
  saleDate :: string
  sale_createdBy :: string

record sale = insertSale +
  sale_id :: string
  sale_createdAt :: nat

text \<open>
  \<open>Partial<Investment>\<close> as both callers of \<open>updateInvestment\<close> build it: every key of
  \<open>insertInvestmentSchema.partial()\<close> may be absent (\<open>None\<close>); \<open>symbol\<close> is nullable,
  so a present key may carry \<open>null\<close> (\<open>Some None\<close>).
\<close>

record partialInvestment =
  p_name :: "string option"
  p_symbol :: "string option option"
  p_investmentType :: "string option"
  p_initialValue :: "decimal option"
  p_currentValue :: "decimal option"
  p_allePercentage :: "number option"
  p_aliPercentage :: "number option"
  p_purchaseDate :: "string option"
  p_createdBy :: "string option"

definition emptyPartial :: partialInvestment where
  "emptyPartial = \<lparr>p_name = None, p_symbol = None, p_investmentType = None,
     p_initialValue = None, p_currentValue = None, p_allePercentage = None,
     p_aliPercentage = None, p_purchaseDate = None, p_createdBy = None\<rparr>"

subsection \<open>Arithmetic on numbers\<close>

text \<open>
  JavaScript computes on IEEE-754 binary64 values. \<open>binary64 x\<close> is the value nearest to
  \<open>x\<close> with a significand of 53 bits, ties going to the even significand; it is what
  reading a decimal literal or \<open>parseFloat\<close> of a decimal string yields, and what every
  arithmetic operation rounds its exact result to. Overflow and subnormal values (beyond
  \<open>2^1024\<close>, below \<open>2^-1022\<close>) are not modelled.
\<close>

function bitLength :: "int \<Rightarrow> int" where
  "bitLength n = (if n \<le> 0 then 0 else 1 + bitLength (n div 2))"
  by pat_completeness auto
termination
  by (relation "measure nat") auto

declare bitLength.simps [simp del]

text \<open>For \<open>0 < a\<close>, the exponent \<open>e\<close> with \<open>2^e \<le> a < 2^(e+1)\<close>.\<close>

definition exponent :: "rat \<Rightarrow> int" where
  "exponent a =
     (if 1 \<le> a then bitLength \<lfloor>a\<rfloor> - 1 else - bitLength (\<lceil>1 / a\<rceil> - 1))"

definition pow2 :: "int \<Rightarrow> rat" where
  "pow2 k = (if 0 \<le> k then 2 ^ nat k else 1 / 2 ^ nat (- k))"

definition roundHalfEven :: "rat \<Rightarrow> int" where
  "roundHalfEven q =
     (let f = \<lfloor>q\<rfloor>; d = q - of_int f
      in if d < 1 / 2 then f else if 1 / 2 < d then f + 1 else if even f then f else f + 1)"

definition binary64 :: "rat \<Rightarrow> rat" where
  "binary64 x =
     (if x = 0 then 0
      else (let a = \<bar>x\<bar>; e = exponent a; m = roundHalfEven (a * pow2 (52 - e))
            in sgn x * of_int m * pow2 (e - 52)))"

text \<open>\<open>a + b\<close> and \<open>a - b\<close> on two numbers read from decimal text.\<close>

definition jsPlus :: "number \<Rightarrow> number \<Rightarrow> number" where
  "jsPlus a b = binary64 (binary64 a + binary64 b)"

definition jsMinus :: "number \<Rightarrow> number \<Rightarrow> number" where
  "jsMinus a b = binary64 (binary64 a - binary64 b)"

subsection \<open>Validation schemas\<close>

text \<open>
  \<open>insertInvestmentSchema\<close>: both percentages in \<open>[0, 100]\<close>, both values positive;
  the remaining columns are typed by the record.
\<close>

definition insertInvestmentSchema :: "insertInvestment \<Rightarrow> bool" where
  "insertInvestmentSchema b \<longleftrightarrow>
     0 \<le> allePercentage b \<and> allePercentage b \<le> 100 \<and>
     0 \<le> aliPercentage b \<and> aliPercentage b \<le> 100 \<and>
     0 < initialValue b \<and> 0 < currentValue b"

definition inRange :: "number option \<Rightarrow> bool" where
  "inRange p = (case p of None \<Rightarrow> True | Some v \<Rightarrow> 0 \<le> v \<and> v \<le> 100)"

definition positiveOpt :: "decimal option \<Rightarrow> bool" where
  "positiveOpt p = (case p of None \<Rightarrow> True | Some v \<Rightarrow> 0 < v)"

text \<open>\<open>insertInvestmentSchema.partial()\<close>: the same checks on the keys that are present.\<close>

definition partialInvestmentSchema :: "partialInvestment \<Rightarrow> bool" where
  "partialInvestmentSchema b \<longleftrightarrow>
     inRange (p_allePercentage b) \<and> inRange (p_aliPercentage b) \<and>
     positiveOpt (p_initialValue b) \<and> positiveOpt (p_currentValue b)"

section \<open>MemStorage (server/storage.ts)\<close>

subsection \<open>The JavaScript Map\<close>

text \<open>
  A \<open>Map\<close> keeps its entries in insertion order: \<open>set\<close> on a present key replaces
  the value in place, on a new key appends; \<open>values()\<close> iterates in that order.
\<close>

type_synonym ('k, 'v) jsmap = "('k \<times> 'v) list"

fun Map_set :: "'k \<Rightarrow> 'v \<Rightarrow> ('k, 'v) jsmap \<Rightarrow> ('k, 'v) jsmap" where
  "Map_set k v [] = [(k, v)]"
| "Map_set k v ((k', v') # m) =
     (if k' = k then (k, v) # m else (k', v') # Map_set k v m)"

definition Map_get :: "('k, 'v) jsmap \<Rightarrow> 'k \<Rightarrow> 'v option" where
  "Map_get m k = map_of m k"

definition Map_has :: "('k, 'v) jsmap \<Rightarrow> 'k \<Rightarrow> bool" where
  "Map_has m k \<longleftrightarrow> k \<in> set (map fst m)"

definition Map_delete :: "'k \<Rightarrow> ('k, 'v) jsmap \<Rightarrow> ('k, 'v) jsmap" where
  "Map_delete k m = filter (\<lambda>e. fst e \<noteq> k) m"

definition Map_values :: "('k, 'v) jsmap \<Rightarrow> 'v list" where
  "Map_values m = map snd m"

subsection \<open>The store and its operations\<close>

record storage =
  users :: "(string, user) jsmap"
  investments :: "(string, investment) jsmap"
  transactions :: "(string, transaction) jsmap"
  sales :: "(string, sale) jsmap"

definition emptyStorage :: storage where
  "emptyStorage = \<lparr>users = [], investments = [], transactions = [], sales = []\<rparr>"

text \<open>
  \<open>randomUUID()\<close> and \<open>new Date()\<close> are supplied by the caller: a \<open>stamp\<close> is the
  pair drawn by one \<open>create\<close> call.
\<close>

type_synonym stamp = "string \<times> nat"

definition getUserByUsername :: "storage \<Rightarrow> string \<Rightarrow> user option" where
  "getUserByUsername st n = find (\<lambda>u. username u = n) (Map_values (users st))"

definition createUser :: "string \<Rightarrow> insertUser \<Rightarrow> storage \<Rightarrow> user \<times> storage" where
  "createUser uid insertUser st =
     (let u = insertUser.extend insertUser (user.fields uid)
      in (u, st\<lparr>users := Map_set uid u (users st)\<rparr>))"

definition getAllUsers :: "storage \<Rightarrow> user list" where
  "getAllUsers st = Map_values (users st)"

text \<open>
  A supplied password is \<open>None\<close> when the key is absent. \<open>!password\<close> holds for an
  absent password and for the empty string.
\<close>

definition falsy :: "string option \<Rightarrow> bool" where
  "falsy s \<longleftrightarrow> s = None \<or> s = Some []"

definition authenticateUser :: "storage \<Rightarrow> string \<Rightarrow> string option \<Rightarrow> user option" where
  "authenticateUser st n pw =
     (case getUserByUsername st n of
        None \<Rightarrow> None
      | Some u \<Rightarrow>
          if role u = ''admin'' then
            (if falsy pw \<or> password u \<noteq> pw then None else Some u)
          else Some u)"

definition getInvestment :: "storage \<Rightarrow> string \<Rightarrow> investment option" where
  "getInvestment st i = Map_get (investments st) i"

definition getAllInvestments :: "storage \<Rightarrow> investment list" where
  "getAllInvestments st = Map_values (investments st)"

definition createInvestment :: "stamp \<Rightarrow> insertInvestment \<Rightarrow> storage \<Rightarrow> investment \<times> storage" where
  "createInvestment s b st =
     (let newInvestment = insertInvestment.extend b (investment.fields (fst s) (snd s))
      in (newInvestment, st\<lparr>investments := Map_set (fst s) newInvestment (investments st)\<rparr>))"

text \<open>\<open>{ ...existing, ...investment }\<close>: a key present in the update wins.\<close>

definition spread :: "'a \<Rightarrow> 'a option \<Rightarrow> 'a" where
  "spread old new = (case new of None \<Rightarrow> old | Some v \<Rightarrow> v)"

definition mergeInvestment :: "investment \<Rightarrow> partialInvestment \<Rightarrow> investment" where
  "mergeInvestment existing p = existing
     \<lparr>name := spread (name existing) (p_name p),
      symbol := spread (symbol existing) (p_symbol p),
      investmentType := spread (investmentType existing) (p_investmentType p),
      initialValue := spread (initialValue existing) (p_initialValue p),
      currentValue := spread (currentValue existing) (p_currentValue p),
      allePercentage := spread (allePercentage existing) (p_allePercentage p),
      aliPercentage := spread (aliPercentage existing) (p_aliPercentage p),
      purchaseDate := spread (purchaseDate existing) (p_purchaseDate p),
      createdBy := spread (createdBy existing) (p_createdBy p)\<rparr>"

definition updateInvestment ::
  "string \<Rightarrow> partialInvestment \<Rightarrow> storage \<Rightarrow> investment option \<times> storage" where
  "updateInvestment i p st =
     (case Map_get (investments st) i of
        None \<Rightarrow> (None, st)
      | Some existing \<Rightarrow>
          (let updated = mergeInvestment existing p
           in (Some updated, st\<lparr>investments := Map_set i updated (investments st)\<rparr>)))"

definition deleteInvestment :: "string \<Rightarrow> storage \<Rightarrow> bool \<times> storage" where
  "deleteInvestment i st =
     (Map_has (investments st) i, st\<lparr>investments := Map_delete i (investments st)\<rparr>)"

definition createTransaction ::
  "stamp \<Rightarrow> insertTransaction \<Rightarrow> storage \<Rightarrow> transaction \<times> storage" where
  "createTransaction s b st =
     (let newTransaction = insertTransaction.extend b (transaction.fields (fst s) (snd s))
      in (newTransaction, st\<lparr>transactions := Map_set (fst s) newTransaction (transactions st)\<rparr>))"

definition createSale :: "stamp \<Rightarrow> insertSale \<Rightarrow> storage \<Rightarrow> sale \<times> storage" where
  "createSale s b st =
     (let newSale = insertSale.extend b (sale.fields (fst s) (snd s))
      in (newSale, st\<lparr>sales := Map_set (fst s) newSale (sales st)\<rparr>))"

subsection \<open>Sorted listings\<close>

text \<open>
  \<open>Array.prototype.sort\<close> with a comparator, as the V8 engine of Node.js runs it on an
  array of fewer than 64 elements: the longest run at the front is found (and reversed
  when it is strictly descending for the comparator), then every further element is put
  into the sorted front by binary insertion. A comparator result of \<open>NaN\<close> (here
  \<open>None\<close>) counts as \<open>0\<close>. From 64 elements on the engine merges several such runs;
  for a comparator that is a consistent order its result is the same stable sort, for
  any other comparator only the shorter arrays are modelled.
\<close>

definition Compare :: "('a \<Rightarrow> 'a \<Rightarrow> int option) \<Rightarrow> 'a \<Rightarrow> 'a \<Rightarrow> int" where
  "Compare c x y = (case c x y of None \<Rightarrow> 0 | Some v \<Rightarrow> v)"

text \<open>
  The loop of \<open>CountAndMakeRun\<close>: how many of the elements after \<open>previousElement\<close>
  continue the run.
\<close>

fun extendRun :: "('a \<Rightarrow> 'a \<Rightarrow> int option) \<Rightarrow> bool \<Rightarrow> 'a \<Rightarrow> 'a list \<Rightarrow> nat" where
  "extendRun c isDescending previousElement [] = 0"
| "extendRun c isDescending previousElement (currentElement # rest) =
     (if isDescending then
        (if 0 \<le> Compare c currentElement previousElement then 0
         else Suc (extendRun c isDescending currentElement rest))
      else
        (if Compare c currentElement previousElement < 0 then 0
         else Suc (extendRun c isDescending currentElement rest)))"

text \<open>The run at the front, reversed when descending, and the elements after it.\<close>

definition CountAndMakeRun :: "('a \<Rightarrow> 'a \<Rightarrow> int option) \<Rightarrow> 'a list \<Rightarrow> 'a list \<times> 'a list" where
  "CountAndMakeRun c xs =
     (case xs of
        elementHigh # elementLow # rest \<Rightarrow>
          (let isDescending = Compare c elementLow elementHigh < 0;
               runLength = 2 + extendRun c isDescending elementLow rest
           in (if isDescending then rev (take runLength xs) else take runLength xs,
               drop runLength xs))
      | _ \<Rightarrow> (xs, []))"

text \<open>
  The binary search of \<open>BinaryInsertionSort\<close> on the sorted front \<open>xs\<close> (the range from
  \<open>left\<close> to \<open>right\<close>): the middle element is at \<open>(right - left) >> 1\<close>; a negative
  order continues in the part before it, any other order in the part after it; the
  pivot is placed where the range has become empty.
\<close>

function binaryInsert :: "('a \<Rightarrow> 'a \<Rightarrow> int option) \<Rightarrow> 'a \<Rightarrow> 'a list \<Rightarrow> 'a list" where
  "binaryInsert c pivot xs =
     (if xs = [] then [pivot]
      else if Compare c pivot (xs ! (length xs div 2)) < 0 then
        binaryInsert c pivot (take (length xs div 2) xs) @ drop (length xs div 2) xs
      else
        take (Suc (length xs div 2)) xs @
          binaryInsert c pivot (drop (Suc (length xs div 2)) xs))"
  by pat_completeness auto
termination
  by (relation "measure (\<lambda>(c, pivot, xs). length xs)") auto

declare binaryInsert.simps [simp del]

definition Array_sort :: "('a \<Rightarrow> 'a \<Rightarrow> int option) \<Rightarrow> 'a list \<Rightarrow> 'a list" where
  "Array_sort c xs =
     (if length xs < 2 then xs
      else (case CountAndMakeRun c xs of
              (run, rest) \<Rightarrow> foldl (\<lambda>front pivot. binaryInsert c pivot front) run rest))"

text \<open>
  \<open>new Date(s).getTime()\<close> is the parameter \<open>getTime\<close>: the milliseconds of a date
  string, or \<open>None\<close> (\<open>NaN\<close>) for a string that is not a date. The comparator is
  \<open>(a, b) => getTime(b) - getTime(a)\<close>.
\<close>

definition byDateDesc ::
  "(string \<Rightarrow> int option) \<Rightarrow> ('a \<Rightarrow> string) \<Rightarrow> 'a \<Rightarrow> 'a \<Rightarrow> int option" where
  "byDateDesc getTime field a b =
     (case (getTime (field b), getTime (field a)) of
        (Some tb, Some ta) \<Rightarrow> Some (tb - ta)
      | _ \<Rightarrow> None)"

definition getAllTransactions :: "(string \<Rightarrow> int option) \<Rightarrow> storage \<Rightarrow> transaction list" where
  "getAllTransactions getTime st =
     Array_sort (byDateDesc getTime date) (Map_values (transactions st))"

definition getAllSales :: "(string \<Rightarrow> int option) \<Rightarrow> storage \<Rightarrow> sale list" where
  "getAllSales getTime st =
     Array_sort (byDateDesc getTime saleDate) (Map_values (sales st))"

subsection \<open>Default data\<close>

definition sampleInvestments :: "insertInvestment list" where
  "sampleInvestments =
     [\<lparr>name = ''Vanguard FTSE All-World'', symbol = Some ''VWCE'', investmentType = ''ETF'',
       initialValue = 8000, currentValue = 9200, allePercentage = 75, aliPercentage = 25,
       purchaseDate = ''2023-06-15'', createdBy = ''alle''\<rparr>,
      \<lparr>name = ''Apple Inc.'', symbol = Some ''AAPL'', investmentType = ''Azioni'',
       initialValue = 5000, currentValue = 5800, allePercentage = 80, aliPercentage = 20,
       purchaseDate = ''2023-08-20'', createdBy = ''alle''\<rparr>,
      \<lparr>name = ''iShares Core MSCI World'', symbol = Some ''IWDA'', investmentType = ''ETF'',
       initialValue = 7000, currentValue = 758934 / 100, allePercentage = 70,
       aliPercentage = 30, purchaseDate = ''2023-09-10'', createdBy = ''alle''\<rparr>]"

text \<open>The seeding loop: one investment and its purchase transaction per sample.\<close>

fun seedInvestments :: "(insertInvestment \<times> stamp \<times> stamp) list \<Rightarrow> storage \<Rightarrow> storage" where
  "seedInvestments [] st = st"
| "seedInvestments ((sample, si, stx) # rest) st =
     (let (investment, st1) = createInvestment si sample st;
          (t, st2) = createTransaction stx
             \<lparr>action = ''Acquisto'', investmentId = Some (investment_id investment),
              investmentName = name sample, amount = initialValue sample,
              date = purchaseDate sample, userId = ''alle''\<rparr> st1
      in seedInvestments rest st2)"

text \<open>
  \<open>initializeDefaultData\<close>, run by the constructor on the empty maps: \<open>u1\<close>, \<open>u2\<close> are
  the identifiers drawn for the two users, \<open>s1\<close>, \<open>s2\<close>, \<open>s3\<close> the stamps drawn for
  each sample investment and its transaction.
\<close>

definition initializeDefaultData ::
  "string \<Rightarrow> string \<Rightarrow> stamp \<times> stamp \<Rightarrow> stamp \<times> stamp \<Rightarrow> stamp \<times> stamp \<Rightarrow> storage" where
  "initializeDefaultData u1 u2 s1 s2 s3 =
     (let (a, st1) = createUser u1
            \<lparr>username = ''alle'', displayName = ''Alle'', role = ''admin'',
             password = Some ''admin123''\<rparr> emptyStorage;
          (b, st2) = createUser u2
            \<lparr>username = ''ali'', displayName = ''Ali'', role = ''viewer'',
             password = None\<rparr> st1
      in seedInvestments (zip sampleInvestments [s1, s2, s3]) st2)"

section \<open>Routes (server/routes.ts)\<close>

text \<open>
  A response is a status code and a JSON body. \<open>Issues\<close> is the body
  \<open>{message: "Dati non validi", errors: ...}\<close> of a failed schema validation.
\<close>

datatype body =
    Message string
  | Issues
  | UserBody user
  | UsersBody "user list"
  | InvestmentBody investment
  | InvestmentsBody "investment list"
  | TransactionsBody "transaction list"
  | SaleBody sale
  | SalesBody "sale list"

type_synonym response = "nat \<times> body"

definition percentageMessage :: string where
  "percentageMessage = ''Le percentuali devono sommare esattamente a 100%''"

text \<open>The message for a missing username; its accented letter is two UTF-8 bytes.\<close>

definition usernameMessage :: string where
  "usernameMessage = ''Username '' @ [CHR 0xC3, CHR 0xA8] @ '' richiesto''"

definition notFoundMessage :: string where
  "notFoundMessage = ''Investimento non trovato''"

text \<open>\<open>POST /api/auth/login\<close>; the body's \<open>username\<close> and \<open>password\<close> keys may be absent.\<close>

definition login :: "string option \<Rightarrow> string option \<Rightarrow> storage \<Rightarrow> response" where
  "login un pw st =
     (case un of
        None \<Rightarrow> (400, Message usernameMessage)
      | Some n \<Rightarrow>
          if n = [] then (400, Message usernameMessage)
          else (case authenticateUser st n pw of
                  None \<Rightarrow> (401, Message ''Credenziali non valide'')
                | Some u \<Rightarrow> (200, UserBody u)))"

text \<open>\<open>GET /api/users\<close>, \<open>GET /api/investments\<close>, \<open>GET /api/transactions\<close>, \<open>GET /api/sales\<close>.\<close>

definition getUsers :: "storage \<Rightarrow> response" where
  "getUsers st = (200, UsersBody (getAllUsers st))"

definition getInvestments :: "storage \<Rightarrow> response" where
  "getInvestments st = (200, InvestmentsBody (getAllInvestments st))"

definition getTransactions :: "(string \<Rightarrow> int option) \<Rightarrow> storage \<Rightarrow> response" where
  "getTransactions getTime st = (200, TransactionsBody (getAllTransactions getTime st))"

definition getSales :: "(string \<Rightarrow> int option) \<Rightarrow> storage \<Rightarrow> response" where
  "getSales getTime st = (200, SalesBody (getAllSales getTime st))"

text \<open>\<open>POST /api/investments\<close>; \<open>si\<close> and \<open>stx\<close> are the stamps of the two creations.\<close>

definition postInvestment ::
  "stamp \<Rightarrow> stamp \<Rightarrow> insertInvestment \<Rightarrow> storage \<Rightarrow> response \<times> storage" where
  "postInvestment si stx b st =
     (if \<not> insertInvestmentSchema b then ((400, Issues), st)
      else if jsPlus (allePercentage b) (aliPercentage b) \<noteq> 100 then
        ((400, Message percentageMessage), st)
      else
        (let (investment, st1) = createInvestment si b st;
             (t, st2) = createTransaction stx
               \<lparr>action = ''Acquisto'', investmentId = Some (investment_id investment),
                investmentName = name investment, amount = initialValue investment,
                date = purchaseDate investment, userId = createdBy investment\<rparr> st1
         in ((201, InvestmentBody investment), st2)))"

text \<open>
  \<open>a || b\<close> on strings: the first operand unless it is absent or empty.
\<close>

definition orElse :: "string option \<Rightarrow> string \<Rightarrow> string" where
  "orElse a b = (case a of None \<Rightarrow> b | Some v \<Rightarrow> if v = [] then b else v)"

text \<open>
  \<open>PUT /api/investments/:id\<close>; \<open>today\<close> is
  \<open>new Date().toISOString().split('T')[0]\<close>, \<open>updatedBy\<close> the body's key of that name.
\<close>

definition putInvestment ::
  "stamp \<Rightarrow> string \<Rightarrow> string \<Rightarrow> partialInvestment \<Rightarrow> string option \<Rightarrow> storage
     \<Rightarrow> response \<times> storage" where
  "putInvestment stx today i b updatedBy st =
     (if \<not> partialInvestmentSchema b then ((400, Issues), st)
      else
        (case updateInvestment i b st of
           (None, st1) \<Rightarrow> ((404, Message notFoundMessage), st1)
         | (Some updated, st1) \<Rightarrow>
             (let (t, st2) = createTransaction stx
                    \<lparr>action = ''Modifica'', investmentId = Some (investment_id updated),
                     investmentName = name updated, amount = currentValue updated,
                     date = today, userId = orElse updatedBy (createdBy updated)\<rparr> st1
              in ((200, InvestmentBody updated), st2))))"

text \<open>\<open>DELETE /api/investments/:id\<close>.\<close>

definition deleteInvestmentRoute ::
  "stamp \<Rightarrow> string \<Rightarrow> string \<Rightarrow> string option \<Rightarrow> storage \<Rightarrow> response \<times> storage" where
  "deleteInvestmentRoute stx today i deletedBy st =
     (case getInvestment st i of
        None \<Rightarrow> ((404, Message notFoundMessage), st)
      | Some investment \<Rightarrow>
          (let (deleted, st1) = deleteInvestment i st
           in if deleted then
                (let (t, st2) = createTransaction stx
                       \<lparr>action = ''Eliminazione'', investmentId = Some i,
                        investmentName = name investment, amount = 0,
                        date = today, userId = orElse deletedBy (createdBy investment)\<rparr> st1
                 in ((200, Message ''Investimento eliminato con successo''), st2))
              else ((500, Message ''Errore nell'eliminazione investimento''), st1)))"

text \<open>
  \<open>POST /api/sales\<close>. Two parts of the handler are parameters: \<open>insertSaleSchema\<close>,
  whose declaration is not among the sources, and \<open>subtractValue\<close>, which stands for
  \<open>(parseFloat(investment.currentValue) - saleAmount).toString()\<close>. In binary64
  arithmetic that is \<open>jsMinus\<close>: the string that \<open>toString\<close> prints reads back as the
  same binary64 value, which is the value kept here.
\<close>

definition postSale ::
  "(insertSale \<Rightarrow> bool) \<Rightarrow> (decimal \<Rightarrow> decimal \<Rightarrow> decimal) \<Rightarrow> stamp \<Rightarrow> stamp \<Rightarrow>
     insertSale \<Rightarrow> storage \<Rightarrow> response \<times> storage" where
  "postSale insertSaleSchema subtractValue ss stx b st =
     (if \<not> insertSaleSchema b then ((400, Issues), st)
      else if jsPlus (sale_allePercentage b) (sale_aliPercentage b) \<noteq> 100 then
        ((400, Message percentageMessage), st)
      else
        (case getInvestment st (sale_investmentId b) of
           None \<Rightarrow> ((404, Message notFoundMessage), st)
         | Some investment \<Rightarrow>
             (let (sale, st1) = createSale ss b st;
                  newCurrentValue = subtractValue (currentValue investment) (saleAmount b);
                  (u, st2) = updateInvestment (sale_investmentId b)
                     (emptyPartial\<lparr>p_currentValue := Some newCurrentValue\<rparr>) st1;
                  (t, st3) = createTransaction stx
                     \<lparr>action = ''Vendita'', investmentId = Some (sale_investmentId b),
                      investmentName = name investment, amount = saleAmount b,
                      date = saleDate b, userId = sale_createdBy b\<rparr> st2
              in ((201, SaleBody sale), st3))))"

section \<open>Fixtures and specification predicates\<close>

text \<open>
  Modelled from the spec: \<open>insertSaleSchema\<close>, whose declaration is not among the sources.
  The data model gives a sale's percentages as integers from 0 to 100, and the error
  taxonomy counts negative amounts as validation errors. It is used only to instantiate
  the schema parameter of \<open>postSale\<close> at concrete requests.
\<close>

definition insertSaleSchema :: "insertSale \<Rightarrow> bool" where
  "insertSaleSchema b \<longleftrightarrow>
     0 \<le> sale_allePercentage b \<and> sale_allePercentage b \<le> 100 \<and>
     0 \<le> sale_aliPercentage b \<and> sale_aliPercentage b \<le> 100 \<and>
     0 \<le> saleAmount b \<and> 0 \<le> salePrice b"

text \<open>The store after the constructor has run, for one choice of identifiers and times.\<close>

definition seededStorage :: storage where
  "seededStorage = initializeDefaultData ''u1'' ''u2''
     ((''i1'', 1), (''t1'', 2)) ((''i2'', 3), (''t2'', 4)) ((''i3'', 5), (''t3'', 6))"

definition appleInvestment :: investment where
  "appleInvestment =
     \<lparr>name = ''Apple Inc.'', symbol = Some ''AAPL'', investmentType = ''Azioni'',
      initialValue = 5000, currentValue = 5800, allePercentage = 80, aliPercentage = 20,
      purchaseDate = ''2023-08-20'', createdBy = ''alle'', investment_id = ''i2'',
      investment_createdAt = 3\<rparr>"

text \<open>The records that the four mutating routes hand to \<open>createTransaction\<close>.\<close>

definition stored :: "stamp \<Rightarrow> insertTransaction \<Rightarrow> transaction" where
  "stored s b = insertTransaction.extend b (transaction.fields (fst s) (snd s))"

text \<open>Two request bodies: an investment of 1000 split 60/40, and a sale of 400 split 50/50.\<close>

definition testInvestment :: insertInvestment where
  "testInvestment =
     \<lparr>name = ''Test ETF'', symbol = None, investmentType = ''ETF'', initialValue = 1000,
      currentValue = 1000, allePercentage = 60, aliPercentage = 40,
      purchaseDate = ''2024-01-01'', createdBy = ''alle''\<rparr>"

definition testSale :: insertSale where
  "testSale =
     \<lparr>sale_investmentId = ''i2'', sale_investmentName = ''Apple Inc.'', saleAmount = 400,
      salePrice = 400, sale_allePercentage = 50, sale_aliPercentage = 50,
      saleDate = ''2024-02-01'', sale_createdBy = ''alle''\<rparr>"



definition largeSale :: insertSale where
  "largeSale = testSale\<lparr>sale_investmentId := ''i3'',
     sale_investmentName := ''iShares Core MSCI World'', saleAmount := 7000\<rparr>"

text \<open>
  Sorted descending by a date field: any two entries whose dates both have a time are in
  descending order of time. When every date has a time this is descending order outright.
\<close>

definition sortedDesc :: "(string \<Rightarrow> int option) \<Rightarrow> ('a \<Rightarrow> string) \<Rightarrow> 'a list \<Rightarrow> bool" where
  "sortedDesc getTime field xs =
     sorted_wrt (\<lambda>a b. case (getTime (field a), getTime (field b)) of
                          (Some ta, Some tb) \<Rightarrow> tb \<le> ta
                        | _ \<Rightarrow> True) xs"

text \<open>
  The values of \<open>new Date(s).getTime()\<close> on the date strings used below (midnight UTC,
  in milliseconds); every other string used below is not a date.
\<close>

definition knownDates :: "string \<Rightarrow> int option" where
  "knownDates s =
     (if s = ''2022-01-01'' then Some 1640995200000
      else if s = ''2023-01-01'' then Some 1672531200000
      else if s = ''2023-06-15'' then Some 1686787200000
      else if s = ''2023-08-20'' then Some 1692489600000
      else if s = ''2023-09-10'' then Some 1694304000000
      else if s = ''2024-01-01'' then Some 1704067200000
      else if s = ''2024-02-01'' then Some 1706745600000
      else None)"

text \<open>
  The seeded store after four accepted \<open>POST /api/investments\<close> requests, with the
  purchase dates \<open>soon\<close>, \<open>2023-01-01\<close>, \<open>2022-01-01\<close> and \<open>2024-01-01\<close> in that order.
\<close>

definition fourPurchases :: storage where
  "fourPurchases =
     snd (postInvestment (''i7'', 13) (''t7'', 14) (testInvestment\<lparr>purchaseDate := ''2024-01-01''\<rparr>)
       (snd (postInvestment (''i6'', 11) (''t6'', 12)
          (testInvestment\<lparr>purchaseDate := ''2022-01-01''\<rparr>)
         (snd (postInvestment (''i5'', 9) (''t5'', 10)
            (testInvestment\<lparr>purchaseDate := ''2023-01-01''\<rparr>)
           (snd (postInvestment (''i4'', 7) (''t4'', 8)
              (testInvestment\<lparr>purchaseDate := ''soon''\<rparr>) seededStorage)))))))"

text \<open>The seeded store after two accepted sales, dated \<open>2024-01-01\<close> and \<open>2024-02-01\<close>.\<close>

definition twoSales :: storage where
  "twoSales =
     snd (postSale insertSaleSchema (-) (''s2'', 9) (''t5'', 10) testSale
       (snd (postSale insertSaleSchema (-) (''s1'', 7) (''t4'', 8)
          (testSale\<lparr>saleDate := ''2024-01-01''\<rparr>) seededStorage)))"

section \<open>Facts about the store\<close>

lemmas ext_defs = insertUser.defs user.defs insertInvestment.defs investment.defs
  insertTransaction.defs transaction.defs insertSale.defs sale.defs

lemma Map_get_Map_set:
  "Map_get (Map_set k v m) k' = (if k' = k then Some v else Map_get m k')"
  by (induction m) (auto simp: Map_get_def)

lemma Map_set_fresh: "\<not> Map_has m k \<Longrightarrow> Map_set k v m = m @ [(k, v)]"
  by (induction m) (auto simp: Map_has_def)

lemma Map_set_keys: "Map_has m k \<Longrightarrow> map fst (Map_set k v m) = map fst m"
proof (induction m)
  case Nil
  then show ?case by (simp add: Map_has_def)
next
  case (Cons p m)
  then show ?case by (cases p) (force simp: Map_has_def)
qed

lemma Map_get_has: "Map_get m k = Some v \<Longrightarrow> Map_has m k"
  unfolding Map_get_def Map_has_def by (metis map_of_SomeD image_eqI fst_conv set_map)

lemma Map_get_Map_delete:
  "Map_get (Map_delete k m) k' = (if k' = k then None else Map_get m k')"
  by (induction m) (auto simp: Map_get_def Map_delete_def)

lemma seededStorage_investments:
  "investments seededStorage =
     [(''i1'', \<lparr>name = ''Vanguard FTSE All-World'', symbol = Some ''VWCE'',
        investmentType = ''ETF'', initialValue = 8000, currentValue = 9200,
        allePercentage = 75, aliPercentage = 25, purchaseDate = ''2023-06-15'',
        createdBy = ''alle'', investment_id = ''i1'', investment_createdAt = 1\<rparr>),
      (''i2'', appleInvestment),
      (''i3'', \<lparr>name = ''iShares Core MSCI World'', symbol = Some ''IWDA'',
        investmentType = ''ETF'', initialValue = 7000, currentValue = 758934 / 100,
        allePercentage = 70, aliPercentage = 30, purchaseDate = ''2023-09-10'',
        createdBy = ''alle'', investment_id = ''i3'', investment_createdAt = 5\<rparr>)]"
  by (simp add: seededStorage_def initializeDefaultData_def sampleInvestments_def createUser_def
      createInvestment_def createTransaction_def emptyStorage_def Let_def ext_defs
      appleInvestment_def)

lemma seededStorage_transaction_ids:
  "map fst (transactions seededStorage) = [''t1'', ''t2'', ''t3'']"
  by (simp add: seededStorage_def initializeDefaultData_def sampleInvestments_def createUser_def
      createInvestment_def createTransaction_def emptyStorage_def Let_def ext_defs)

lemma seededStorage_apple: "getInvestment seededStorage ''i2'' = Some appleInvestment"
  by (simp add: getInvestment_def Map_get_def seededStorage_investments)

lemma seededStorage_no_i9: "getInvestment seededStorage ''i9'' = None"
  by (simp add: getInvestment_def Map_get_def seededStorage_investments)

subsection \<open>What each mutating route returns\<close>

lemma mergeInvestment_currentValue:
  "mergeInvestment existing (emptyPartial\<lparr>p_currentValue := Some v\<rparr>) =
     existing\<lparr>currentValue := v\<rparr>"
  by (simp add: mergeInvestment_def emptyPartial_def spread_def)

lemma jsPlus_values: "jsPlus 60 40 = 100" "jsPlus 50 50 = 100"
  by code_simp+

lemma postInvestment_success:
  assumes "insertInvestmentSchema b" and "jsPlus (allePercentage b) (aliPercentage b) = 100"
  shows "postInvestment si stx b st =
     ((201, InvestmentBody (insertInvestment.extend b (investment.fields (fst si) (snd si)))),
      st\<lparr>investments := Map_set (fst si)
            (insertInvestment.extend b (investment.fields (fst si) (snd si))) (investments st),
         transactions := Map_set (fst stx)
            (stored stx \<lparr>action = ''Acquisto'', investmentId = Some (fst si),
               investmentName = name b, amount = initialValue b, date = purchaseDate b,
               userId = createdBy b\<rparr>) (transactions st)\<rparr>)"
  using assms
  by (simp add: postInvestment_def createInvestment_def createTransaction_def Let_def
      stored_def ext_defs)

lemma postInvestment_status:
  "fst (fst (postInvestment si stx b st)) =
     (if insertInvestmentSchema b \<and> jsPlus (allePercentage b) (aliPercentage b) = 100
      then 201 else 400)"
  by (simp add: postInvestment_def createInvestment_def createTransaction_def Let_def)

lemma putInvestment_success:
  assumes "partialInvestmentSchema p" and "getInvestment st i = Some old"
  shows "putInvestment stx today i p updatedBy st =
     ((200, InvestmentBody (mergeInvestment old p)),
      st\<lparr>investments := Map_set i (mergeInvestment old p) (investments st),
         transactions := Map_set (fst stx)
            (stored stx \<lparr>action = ''Modifica'',
               investmentId = Some (investment_id (mergeInvestment old p)),
               investmentName = name (mergeInvestment old p),
               amount = currentValue (mergeInvestment old p), date = today,
               userId = orElse updatedBy (createdBy (mergeInvestment old p))\<rparr>)
            (transactions st)\<rparr>)"
  using assms
  by (simp add: putInvestment_def updateInvestment_def createTransaction_def getInvestment_def
      Let_def stored_def)

lemma putInvestment_status:
  "fst (fst (putInvestment stx today i p updatedBy st)) =
     (if \<not> partialInvestmentSchema p then 400
      else if getInvestment st i = None then 404 else 200)"
  by (auto simp: putInvestment_def updateInvestment_def createTransaction_def getInvestment_def
      Let_def split: option.splits)

lemma deleteInvestmentRoute_success:
  assumes "getInvestment st i = Some old"
  shows "deleteInvestmentRoute stx today i deletedBy st =
      ((200, Message ''Investimento eliminato con successo''),
       st\<lparr>investments := Map_delete i (investments st),
          transactions := Map_set (fst stx)
            (stored stx \<lparr>action = ''Eliminazione'', investmentId = Some i,
               investmentName = name old, amount = 0, date = today,
               userId = orElse deletedBy (createdBy old)\<rparr>) (transactions st)\<rparr>)"
proof -
  have "Map_has (investments st) i"
    using assms by (auto simp: getInvestment_def intro: Map_get_has)
  then show ?thesis
    using assms
    by (simp add: deleteInvestmentRoute_def deleteInvestment_def createTransaction_def
        Let_def stored_def)
qed

lemma deleteInvestmentRoute_status:
  "fst (fst (deleteInvestmentRoute stx today i deletedBy st)) =
     (if getInvestment st i = None then 404 else 200)"
proof (cases "getInvestment st i")
  case None
  then show ?thesis by (simp add: deleteInvestmentRoute_def)
next
  case (Some old)
  then show ?thesis by (simp add: deleteInvestmentRoute_success)
qed

lemma postSale_success:
  assumes "schema b" and "jsPlus (sale_allePercentage b) (sale_aliPercentage b) = 100"
    and "getInvestment st (sale_investmentId b) = Some old"
  shows "postSale schema sub ss stx b st =
     ((201, SaleBody (insertSale.extend b (sale.fields (fst ss) (snd ss)))),
      st\<lparr>sales := Map_set (fst ss) (insertSale.extend b (sale.fields (fst ss) (snd ss)))
            (sales st),
         investments := Map_set (sale_investmentId b)
            (old\<lparr>currentValue := sub (currentValue old) (saleAmount b)\<rparr>) (investments st),
         transactions := Map_set (fst stx)
            (stored stx \<lparr>action = ''Vendita'', investmentId = Some (sale_investmentId b),
               investmentName = name old, amount = saleAmount b, date = saleDate b,
               userId = sale_createdBy b\<rparr>) (transactions st)\<rparr>)"
  using assms
  by (simp add: postSale_def createSale_def updateInvestment_def createTransaction_def
      getInvestment_def Let_def mergeInvestment_currentValue stored_def)

lemma postSale_status:
  "fst (fst (postSale schema sub ss stx b st)) =
     (if \<not> schema b \<or> jsPlus (sale_allePercentage b) (sale_aliPercentage b) \<noteq> 100 then 400
      else if getInvestment st (sale_investmentId b) = None then 404 else 201)"
  by (auto simp: postSale_def createSale_def updateInvestment_def createTransaction_def
      getInvestment_def Let_def split: option.splits prod.splits)

lemma stored_fields:
  "action (stored s b) = action b" "amount (stored s b) = amount b"
  "date (stored s b) = date b" "investmentName (stored s b) = investmentName b"
  "investmentId (stored s b) = investmentId b" "userId (stored s b) = userId b"
  "transaction_id (stored s b) = fst s" "transaction_createdAt (stored s b) = snd s"
  by (simp_all add: stored_def ext_defs)

lemma seededStorage_fresh_t9: "\<not> Map_has (transactions seededStorage) ''t9''"
  by (simp add: Map_has_def seededStorage_transaction_ids)

lemma testInvestment_valid:
  "insertInvestmentSchema testInvestment"
  "jsPlus (allePercentage testInvestment) (aliPercentage testInvestment) = 100"
  by (simp_all add: insertInvestmentSchema_def testInvestment_def jsPlus_values)

lemma testSale_valid:
  "insertSaleSchema testSale"
  "jsPlus (sale_allePercentage testSale) (sale_aliPercentage testSale) = 100"
  "sale_investmentId testSale = ''i2''"
  by (simp_all add: insertSaleSchema_def testSale_def jsPlus_values)

subsection \<open>Users\<close>

lemma seedInvestments_users: "users (seedInvestments xs st) = users st"
proof (induction xs arbitrary: st)
  case Nil
  then show ?case by simp
next
  case (Cons x xs)
  obtain sample si stx where x: "x = (sample, si, stx)"
    by (cases x) auto
  show ?case
    by (simp add: x Cons.IH createInvestment_def createTransaction_def Let_def)
qed

lemma initializeDefaultData_users:
  assumes "u1 \<noteq> u2"
  shows "users (initializeDefaultData u1 u2 s1 s2 s3) =
     [(u1, \<lparr>username = ''alle'', displayName = ''Alle'', role = ''admin'',
             password = Some ''admin123'', user_id = u1\<rparr>),
      (u2, \<lparr>username = ''ali'', displayName = ''Ali'', role = ''viewer'',
             password = None, user_id = u2\<rparr>)]"
  using assms
  by (simp add: initializeDefaultData_def createUser_def emptyStorage_def Let_def
      seedInvestments_users ext_defs)

lemma getUserByUsername_stored:
  "getUserByUsername st n = Some u \<Longrightarrow> u \<in> set (Map_values (users st)) \<and> username u = n"
  by (auto simp: getUserByUsername_def find_Some_iff)

lemma authenticateUser_stored:
  "authenticateUser st n pw = Some u \<Longrightarrow> u \<in> set (Map_values (users st))"
  by (auto simp: authenticateUser_def split: option.splits if_splits
      dest: getUserByUsername_stored)

lemma seededStorage_users:
  "users seededStorage =
     [(''u1'', \<lparr>username = ''alle'', displayName = ''Alle'', role = ''admin'',
         password = Some ''admin123'', user_id = ''u1''\<rparr>),
      (''u2'', \<lparr>username = ''ali'', displayName = ''Ali'', role = ''viewer'',
         password = None, user_id = ''u2''\<rparr>)]"
  by (simp add: seededStorage_def initializeDefaultData_users)

lemma seededStorage_lookup:
  "getUserByUsername seededStorage ''alle'' =
     Some \<lparr>username = ''alle'', displayName = ''Alle'', role = ''admin'',
         password = Some ''admin123'', user_id = ''u1''\<rparr>"
  "getUserByUsername seededStorage ''ali'' =
     Some \<lparr>username = ''ali'', displayName = ''Ali'', role = ''viewer'',
         password = None, user_id = ''u2''\<rparr>"
  "getUserByUsername seededStorage ''bob'' = None"
  by (simp_all add: getUserByUsername_def Map_values_def seededStorage_users)

subsection \<open>Sorting\<close>

lemma mset_binaryInsert: "mset (binaryInsert c p xs) = add_mset p (mset xs)"
proof (induction c p xs rule: binaryInsert.induct)
  case (1 c pivot xs)
  show ?case
  proof (cases "xs = []")
    case True
    then show ?thesis by (simp add: binaryInsert.simps)
  next
    case False
    let ?mid = "length xs div 2"
    have split1: "mset (take ?mid xs) + mset (drop ?mid xs) = mset xs"
      by (metis append_take_drop_id mset_append)
    have split2: "mset (take (Suc ?mid) xs) + mset (drop (Suc ?mid) xs) = mset xs"
      by (metis append_take_drop_id mset_append)
    show ?thesis
    proof (cases "Compare c pivot (xs ! ?mid) < 0")
      case True
      then have "binaryInsert c pivot xs =
          binaryInsert c pivot (take ?mid xs) @ drop ?mid xs"
        using False by (subst binaryInsert.simps) simp
      then show ?thesis
        using 1(1) [OF False True] split1 by simp
    next
      case notless: False
      then have "binaryInsert c pivot xs =
          take (Suc ?mid) xs @ binaryInsert c pivot (drop (Suc ?mid) xs)"
        using False by (subst binaryInsert.simps) simp
      then show ?thesis
        using 1(2) [OF False notless] split2 by simp
    qed
  qed
qed

lemma set_binaryInsert: "set (binaryInsert c p xs) = insert p (set xs)"
  by (metis mset_binaryInsert set_mset_add_mset_insert set_mset_mset)

lemma sorted_binaryInsert:
  assumes "\<forall>x \<in> insert p (set xs). \<forall>y \<in> insert p (set xs). Compare c x y = k y - k x"
    and "sorted_wrt (\<lambda>a b. k b \<le> k a) xs"
  shows "sorted_wrt (\<lambda>a b. (k b :: int) \<le> k a) (binaryInsert c p xs)"
  using assms
proof (induction c p xs rule: binaryInsert.induct)
  case (1 c pivot xs)
  show ?case
  proof (cases "xs = []")
    case True
    then show ?thesis by (simp add: binaryInsert.simps)
  next
    case False
    let ?mid = "length xs div 2"
    let ?m = "xs ! ?mid"
    have mid: "?mid < length xs"
      using False by simp
    have parts: "xs = take ?mid xs @ ?m # drop (Suc ?mid) xs"
      using mid by (rule id_take_nth_drop)
    have sorted_parts: "sorted_wrt (\<lambda>a b. k b \<le> k a) (take ?mid xs @ ?m # drop (Suc ?mid) xs)"
      using "1.prems"(2) parts by simp
    have before: "\<forall>a \<in> set (take ?mid xs). k ?m \<le> k a"
      using sorted_parts by (auto simp: sorted_wrt_append)
    have after: "\<forall>b \<in> set (drop (Suc ?mid) xs). k b \<le> k ?m"
      using sorted_parts by (auto simp: sorted_wrt_append)
    have across: "\<forall>a \<in> set (take ?mid xs). \<forall>b \<in> set (drop (Suc ?mid) xs). k b \<le> k a"
      using sorted_parts by (auto simp: sorted_wrt_append)
    have order: "Compare c pivot ?m = k ?m - k pivot"
      using "1.prems"(1) mid by simp
    have sub1: "\<forall>x \<in> insert pivot (set (take ?mid xs)).
        \<forall>y \<in> insert pivot (set (take ?mid xs)). Compare c x y = k y - k x"
      using "1.prems"(1) set_take_subset [of ?mid xs] by blast
    have sub2: "\<forall>x \<in> insert pivot (set (drop (Suc ?mid) xs)).
        \<forall>y \<in> insert pivot (set (drop (Suc ?mid) xs)). Compare c x y = k y - k x"
      using "1.prems"(1) set_drop_subset [of "Suc ?mid" xs] by blast
    show ?thesis
    proof (cases "Compare c pivot ?m < 0")
      case True
      then have eq: "binaryInsert c pivot xs =
          binaryInsert c pivot (take ?mid xs) @ drop ?mid xs"
        using False by (subst binaryInsert.simps) simp
      have front: "sorted_wrt (\<lambda>a b. k b \<le> k a) (binaryInsert c pivot (take ?mid xs))"
        using "1.IH"(1) [OF False True sub1] "1.prems"(2) by simp
      have tail: "drop ?mid xs = ?m # drop (Suc ?mid) xs"
        using mid by (simp add: Cons_nth_drop_Suc)
      have lt: "k ?m < k pivot"
        using True order by simp
      have after': "\<forall>b \<in> set (drop (Suc ?mid) xs). k b \<le> k pivot"
      proof
        fix b assume "b \<in> set (drop (Suc ?mid) xs)"
        then have "k b \<le> k ?m" using after by blast
        then show "k b \<le> k pivot" using lt by linarith
      qed
      have cross: "\<forall>a \<in> set (binaryInsert c pivot (take ?mid xs)).
          \<forall>b \<in> set (drop ?mid xs). k b \<le> k a"
        unfolding set_binaryInsert tail using lt before after' across by auto
      have "sorted_wrt (\<lambda>a b. k b \<le> k a) (drop ?mid xs)"
        using "1.prems"(2) by simp
      moreover note cross
      ultimately show ?thesis
        using front by (simp add: eq sorted_wrt_append)
    next
      case notless: False
      then have eq: "binaryInsert c pivot xs =
          take (Suc ?mid) xs @ binaryInsert c pivot (drop (Suc ?mid) xs)"
        using False by (subst binaryInsert.simps) simp
      have rear: "sorted_wrt (\<lambda>a b. k b \<le> k a) (binaryInsert c pivot (drop (Suc ?mid) xs))"
        using "1.IH"(2) [OF False notless sub2] "1.prems"(2) by simp
      have head: "take (Suc ?mid) xs = take ?mid xs @ [?m]"
        using mid by (simp add: take_Suc_conv_app_nth)
      have ge: "k pivot \<le> k ?m"
        using notless order by simp
      have before': "\<forall>a \<in> set (take ?mid xs). k pivot \<le> k a"
      proof
        fix a assume "a \<in> set (take ?mid xs)"
        then have "k ?m \<le> k a" using before by blast
        then show "k pivot \<le> k a" using ge by linarith
      qed
      have "sorted_wrt (\<lambda>a b. k b \<le> k a) (take (Suc ?mid) xs)"
        using "1.prems"(2) by simp
      moreover have "\<forall>a \<in> set (take (Suc ?mid) xs).
          \<forall>b \<in> set (binaryInsert c pivot (drop (Suc ?mid) xs)). k b \<le> k a"
        unfolding set_binaryInsert head using ge before' before after across by auto
      ultimately show ?thesis
        using rear by (simp add: eq sorted_wrt_append)
    qed
  qed
qed

lemma mset_insertAll:
  "mset (foldl (\<lambda>front pivot. binaryInsert c pivot front) run rest) = mset run + mset rest"
  by (induction rest arbitrary: run) (simp_all add: mset_binaryInsert)

lemma sorted_insertAll:
  assumes "\<forall>x \<in> set run \<union> set rest. \<forall>y \<in> set run \<union> set rest. Compare c x y = k y - k x"
    and "sorted_wrt (\<lambda>a b. k b \<le> k a) run"
  shows "sorted_wrt (\<lambda>a b. (k b :: int) \<le> k a)
     (foldl (\<lambda>front pivot. binaryInsert c pivot front) run rest)"
  using assms
proof (induction rest arbitrary: run)
  case Nil
  then show ?case by simp
next
  case (Cons p rest)
  have "\<forall>x \<in> insert p (set run). \<forall>y \<in> insert p (set run). Compare c x y = k y - k x"
    using Cons.prems(1) by simp
  then have "sorted_wrt (\<lambda>a b. k b \<le> k a) (binaryInsert c p run)"
    using Cons.prems(2) by (rule sorted_binaryInsert)
  moreover have "\<forall>x \<in> set (binaryInsert c p run) \<union> set rest.
      \<forall>y \<in> set (binaryInsert c p run) \<union> set rest. Compare c x y = k y - k x"
    using Cons.prems(1) by (simp add: set_binaryInsert)
  ultimately show ?case
    using Cons.IH by simp
qed

lemma extendRun_successively:
  "successively (\<lambda>a b. if d then Compare c b a < 0 else \<not> Compare c b a < 0)
     (p # take (extendRun c d p rest) rest)"
  by (induction rest arbitrary: p) (auto simp: not_le)

lemma CountAndMakeRun_parts:
  "mset (fst (CountAndMakeRun c xs)) + mset (snd (CountAndMakeRun c xs)) = mset xs"
proof (cases xs rule: remdups_adj.cases)
  case (3 x y zs)
  have "mset (take n xs) + mset (drop n xs) = mset xs" for n
    by (metis append_take_drop_id mset_append)
  then show ?thesis
    by (simp add: CountAndMakeRun_def 3 Let_def del: take_Suc_Cons drop_Suc_Cons)
qed (simp_all add: CountAndMakeRun_def)

lemma CountAndMakeRun_sorted:
  assumes "\<forall>x \<in> set xs. \<forall>y \<in> set xs. Compare c x y = k y - k x"
  shows "sorted_wrt (\<lambda>a b. (k b :: int) \<le> k a) (fst (CountAndMakeRun c xs))"
proof (cases xs rule: remdups_adj.cases)
  case 1
  then show ?thesis by (simp add: CountAndMakeRun_def)
next
  case (2 x)
  then show ?thesis by (simp add: CountAndMakeRun_def)
next
  case (3 h l rest)
  let ?d = "Compare c l h < 0"
  let ?run = "h # l # take (extendRun c ?d l rest) rest"
  have run: "take (2 + extendRun c ?d l rest) xs = ?run"
    by (simp add: 3)
  have inside: "set ?run \<subseteq> set xs"
    using set_take_subset [of "extendRun c ?d l rest" rest] by (auto simp: 3)
  have steps: "successively (\<lambda>a b. if ?d then Compare c b a < 0 else \<not> Compare c b a < 0) ?run"
    using extendRun_successively [of ?d c l rest] by simp
  show ?thesis
  proof (cases ?d)
    case True
    have "successively (\<lambda>a b. k a < k b) ?run"
    proof (rule successively_mono [OF steps])
      fix a b assume "a \<in> set ?run" "b \<in> set ?run"
        and "if ?d then Compare c b a < 0 else \<not> Compare c b a < 0"
      then show "k a < k b"
        using True assms inside by (auto simp: subset_iff)
    qed
    then have "sorted_wrt (\<lambda>a b. k a < k b) ?run"
      by (subst (asm) successively_conv_sorted_wrt) (auto simp: transp_def)
    then have "sorted_wrt (\<lambda>a b. k b \<le> k a) (rev ?run)"
      unfolding sorted_wrt_rev by (rule sorted_wrt_mono_rel [rotated]) simp
    then show ?thesis
      using True run by (simp add: CountAndMakeRun_def 3 Let_def del: take_Suc_Cons)
  next
    case False
    have "successively (\<lambda>a b. k b \<le> k a) ?run"
    proof (rule successively_mono [OF steps])
      fix a b assume "a \<in> set ?run" "b \<in> set ?run"
        and "if ?d then Compare c b a < 0 else \<not> Compare c b a < 0"
      then show "k b \<le> k a"
        using False assms inside by (auto simp: subset_iff)
    qed
    then have "sorted_wrt (\<lambda>a b. k b \<le> k a) ?run"
      by (subst (asm) successively_conv_sorted_wrt) (auto simp: transp_def)
    then show ?thesis
      using False run by (simp add: CountAndMakeRun_def 3 Let_def del: take_Suc_Cons)
  qed
qed

lemma mset_Array_sort: "mset (Array_sort c xs) = mset xs"
  using CountAndMakeRun_parts [of c xs]
  by (auto simp: Array_sort_def mset_insertAll split: prod.splits)

lemma set_Array_sort: "set (Array_sort c xs) = set xs"
  by (metis mset_Array_sort set_mset_mset)

lemma sorted_Array_sort:
  assumes "\<forall>x \<in> set xs. \<forall>y \<in> set xs. Compare c x y = k y - k x"
  shows "sorted_wrt (\<lambda>a b. (k b :: int) \<le> k a) (Array_sort c xs)"
proof (cases "length xs < 2")
  case True
  then have "length xs \<le> 1" by simp
  then show ?thesis
    using True by (simp add: Array_sort_def sorted_wrt01)
next
  case False
  obtain run rest where r: "CountAndMakeRun c xs = (run, rest)"
    by (cases "CountAndMakeRun c xs")
  have "mset run + mset rest = mset xs"
    using CountAndMakeRun_parts [of c xs] r by simp
  then have "set run \<union> set rest = set xs"
    by (metis set_mset_mset set_mset_union)
  then have "\<forall>x \<in> set run \<union> set rest. \<forall>y \<in> set run \<union> set rest. Compare c x y = k y - k x"
    using assms by simp
  moreover have "sorted_wrt (\<lambda>a b. k b \<le> k a) run"
    using CountAndMakeRun_sorted [OF assms] r by simp
  ultimately have "sorted_wrt (\<lambda>a b. k b \<le> k a)
      (foldl (\<lambda>front pivot. binaryInsert c pivot front) run rest)"
    by (rule sorted_insertAll)
  then show ?thesis
    using False r by (simp add: Array_sort_def)
qed

lemma sortedDesc_Array_sort:
  assumes "\<forall>y \<in> set xs. getTime (f y) \<noteq> None"
  shows "sortedDesc getTime f (Array_sort (byDateDesc getTime f) xs)"
proof -
  define k where "k = (\<lambda>x. case getTime (f x) of Some t \<Rightarrow> t | None \<Rightarrow> (0 :: int))"
  have "\<forall>x \<in> set xs. \<forall>y \<in> set xs. Compare (byDateDesc getTime f) x y = k y - k x"
  proof (intro ballI)
    fix x y assume "x \<in> set xs" "y \<in> set xs"
    then obtain tx ty where "getTime (f x) = Some tx" "getTime (f y) = Some ty"
      using assms by fastforce
    then show "Compare (byDateDesc getTime f) x y = k y - k x"
      by (simp add: Compare_def byDateDesc_def k_def)
  qed
  then have "sorted_wrt (\<lambda>a b. k b \<le> k a) (Array_sort (byDateDesc getTime f) xs)"
    by (rule sorted_Array_sort)
  then show ?thesis
    unfolding sortedDesc_def
    by (rule sorted_wrt_mono_rel [rotated]) (auto simp: k_def split: option.splits)
qed

subsection \<open>The fixture stores\<close>

lemma seededStorage_transactions:
  "transactions seededStorage =
     [(''t1'', stored (''t1'', 2) \<lparr>action = ''Acquisto'', investmentId = Some ''i1'',
         investmentName = ''Vanguard FTSE All-World'', amount = 8000,
         date = ''2023-06-15'', userId = ''alle''\<rparr>),
      (''t2'', stored (''t2'', 4) \<lparr>action = ''Acquisto'', investmentId = Some ''i2'',
         investmentName = ''Apple Inc.'', amount = 5000,
         date = ''2023-08-20'', userId = ''alle''\<rparr>),
      (''t3'', stored (''t3'', 6) \<lparr>action = ''Acquisto'', investmentId = Some ''i3'',
         investmentName = ''iShares Core MSCI World'', amount = 7000,
         date = ''2023-09-10'', userId = ''alle''\<rparr>)]"
  by (simp add: seededStorage_def initializeDefaultData_def sampleInvestments_def createUser_def
      createInvestment_def createTransaction_def emptyStorage_def Let_def ext_defs stored_def)

lemma seededStorage_sales: "sales seededStorage = []"
  by (simp add: seededStorage_def initializeDefaultData_def sampleInvestments_def createUser_def
      createInvestment_def createTransaction_def emptyStorage_def Let_def)

lemma twoSales_unfolded:
  "transactions twoSales =
     Map_set ''t5'' (stored (''t5'', 10) \<lparr>action = ''Vendita'', investmentId = Some ''i2'',
         investmentName = ''Apple Inc.'', amount = 400, date = ''2024-02-01'',
         userId = ''alle''\<rparr>)
       (Map_set ''t4'' (stored (''t4'', 8) \<lparr>action = ''Vendita'', investmentId = Some ''i2'',
         investmentName = ''Apple Inc.'', amount = 400, date = ''2024-01-01'',
         userId = ''alle''\<rparr>) (transactions seededStorage))"
  "sales twoSales =
     Map_set ''s2'' (insertSale.extend testSale (sale.fields ''s2'' 9))
       (Map_set ''s1'' (insertSale.extend (testSale\<lparr>saleDate := ''2024-01-01''\<rparr>)
          (sale.fields ''s1'' 7)) (sales seededStorage))"
proof -
  let ?b1 = "testSale\<lparr>saleDate := ''2024-01-01''\<rparr>"
  let ?st1 = "snd (postSale insertSaleSchema (-) (''s1'', 7) (''t4'', 8) ?b1 seededStorage)"
  have v1: "insertSaleSchema ?b1"
      "jsPlus (sale_allePercentage ?b1) (sale_aliPercentage ?b1) = 100"
      "getInvestment seededStorage (sale_investmentId ?b1) = Some appleInvestment"
    by (simp_all add: insertSaleSchema_def testSale_def seededStorage_apple jsPlus_values)
  note r1 = postSale_success [where schema = insertSaleSchema and b = ?b1 and sub = "(-)"
      and ss = "(''s1'', 7)" and stx = "(''t4'', 8)", OF v1]
  have v2: "getInvestment ?st1 (sale_investmentId testSale) =
      Some (appleInvestment\<lparr>currentValue := currentValue appleInvestment - saleAmount ?b1\<rparr>)"
    unfolding r1 by (simp add: getInvestment_def Map_get_Map_set testSale_def)
  note r2 = postSale_success [where schema = insertSaleSchema and b = testSale and sub = "(-)"
      and ss = "(''s2'', 9)" and stx = "(''t5'', 10)", OF testSale_valid(1,2) v2]
  have n: "name appleInvestment = ''Apple Inc.''"
    by (simp add: appleInvestment_def)
  show "transactions twoSales =
     Map_set ''t5'' (stored (''t5'', 10) \<lparr>action = ''Vendita'', investmentId = Some ''i2'',
         investmentName = ''Apple Inc.'', amount = 400, date = ''2024-02-01'',
         userId = ''alle''\<rparr>)
       (Map_set ''t4'' (stored (''t4'', 8) \<lparr>action = ''Vendita'', investmentId = Some ''i2'',
         investmentName = ''Apple Inc.'', amount = 400, date = ''2024-01-01'',
         userId = ''alle''\<rparr>) (transactions seededStorage))"
    unfolding twoSales_def r2 by (simp add: r1 n) (simp add: testSale_def)
  show "sales twoSales =
     Map_set ''s2'' (insertSale.extend testSale (sale.fields ''s2'' 9))
       (Map_set ''s1'' (insertSale.extend (testSale\<lparr>saleDate := ''2024-01-01''\<rparr>)
          (sale.fields ''s1'' 7)) (sales seededStorage))"
    unfolding twoSales_def r2 by (simp add: r1)
qed

lemma twoSales_transactions:
  "map (\<lambda>e. date (snd e)) (transactions twoSales) =
     [''2023-06-15'', ''2023-08-20'', ''2023-09-10'', ''2024-01-01'', ''2024-02-01'']"
  by (simp add: twoSales_unfolded seededStorage_transactions stored_fields)

lemma twoSales_sales:
  "map (\<lambda>e. saleDate (snd e)) (sales twoSales) = [''2024-01-01'', ''2024-02-01'']"
  by (simp add: twoSales_unfolded seededStorage_sales testSale_def ext_defs)

lemma fourPurchases_transactions:
  "transactions fourPurchases =
     transactions seededStorage @
     [(''t4'', stored (''t4'', 8) \<lparr>action = ''Acquisto'', investmentId = Some ''i4'',
         investmentName = ''Test ETF'', amount = 1000, date = ''soon'',
         userId = ''alle''\<rparr>),
      (''t5'', stored (''t5'', 10) \<lparr>action = ''Acquisto'', investmentId = Some ''i5'',
         investmentName = ''Test ETF'', amount = 1000, date = ''2023-01-01'',
         userId = ''alle''\<rparr>),
      (''t6'', stored (''t6'', 12) \<lparr>action = ''Acquisto'', investmentId = Some ''i6'',
         investmentName = ''Test ETF'', amount = 1000, date = ''2022-01-01'',
         userId = ''alle''\<rparr>),
      (''t7'', stored (''t7'', 14) \<lparr>action = ''Acquisto'', investmentId = Some ''i7'',
         investmentName = ''Test ETF'', amount = 1000, date = ''2024-01-01'',
         userId = ''alle''\<rparr>)]"
proof -
  have p: "snd (postInvestment si stx (testInvestment\<lparr>purchaseDate := d\<rparr>) st) =
      st\<lparr>investments := Map_set (fst si)
            (insertInvestment.extend (testInvestment\<lparr>purchaseDate := d\<rparr>)
               (investment.fields (fst si) (snd si))) (investments st),
         transactions := Map_set (fst stx)
            (stored stx \<lparr>action = ''Acquisto'', investmentId = Some (fst si),
               investmentName = ''Test ETF'', amount = 1000, date = d,
               userId = ''alle''\<rparr>) (transactions st)\<rparr>" for si stx d st
  proof -
    have "insertInvestmentSchema (testInvestment\<lparr>purchaseDate := d\<rparr>)"
      "jsPlus (allePercentage (testInvestment\<lparr>purchaseDate := d\<rparr>))
         (aliPercentage (testInvestment\<lparr>purchaseDate := d\<rparr>)) = 100"
      by (simp_all add: insertInvestmentSchema_def testInvestment_def jsPlus_values)
    then show ?thesis
      by (simp add: postInvestment_success) (simp add: testInvestment_def)
  qed
  show ?thesis
    unfolding fourPurchases_def p
    by (simp add: seededStorage_transactions)
qed

section \<open>Percentage sums on creation\<close>


section \<open>Requests that the routes accept\<close>

text \<open>
  Claim C1. The claim is that a sale whose amount exceeds the current value of the
  investment is answered 400 and creates no sale. The handler compares nothing: on the
  seeded store, where the investment \<open>i2\<close> has the current value 5800, a sale of 6000
  is answered 201, the sale is stored, and the current value becomes \<open>5800 - 6000\<close>. A
  sale of exactly 5800 is answered 201 as well.
\<close>

theorem sale_above_current_value_accepted:
  "getInvestment seededStorage ''i2'' = Some appleInvestment \<and>
   currentValue appleInvestment = 5800 \<and>
   fst (fst (postSale insertSaleSchema (-) (''s1'', 7) (''t9'', 9)
     (testSale\<lparr>saleAmount := 6000\<rparr>) seededStorage)) = 201 \<and>
   map fst (sales (snd (postSale insertSaleSchema (-) (''s1'', 7) (''t9'', 9)
     (testSale\<lparr>saleAmount := 6000\<rparr>) seededStorage))) = [''s1''] \<and>
   getInvestment (snd (postSale insertSaleSchema (-) (''s1'', 7) (''t9'', 9)
     (testSale\<lparr>saleAmount := 6000\<rparr>) seededStorage)) ''i2'' =
     Some (appleInvestment\<lparr>currentValue := - 200\<rparr>) \<and>
   fst (fst (postSale insertSaleSchema (-) (''s1'', 7) (''t9'', 9)
     (testSale\<lparr>saleAmount := 5800\<rparr>) seededStorage)) = 201"
proof -
  let ?b = "testSale\<lparr>saleAmount := 6000\<rparr>"
  have v: "insertSaleSchema ?b" "jsPlus (sale_allePercentage ?b) (sale_aliPercentage ?b) = 100"
      "getInvestment seededStorage (sale_investmentId ?b) = Some appleInvestment"
    by (simp_all add: insertSaleSchema_def testSale_def seededStorage_apple jsPlus_values)
  note r = postSale_success [where schema = insertSaleSchema and b = ?b and sub = "(-)"
      and ss = "(''s1'', 7)" and stx = "(''t9'', 9)", OF v]
  have c: "currentValue appleInvestment = 5800"
    by (simp add: appleInvestment_def)
  have "fst (fst (postSale insertSaleSchema (-) (''s1'', 7) (''t9'', 9) ?b seededStorage)) = 201"
    unfolding r by simp
  moreover have "map fst (sales (snd (postSale insertSaleSchema (-) (''s1'', 7) (''t9'', 9) ?b
      seededStorage))) = [''s1'']"
    unfolding r by (simp add: seededStorage_sales)
  moreover have "getInvestment (snd (postSale insertSaleSchema (-) (''s1'', 7) (''t9'', 9) ?b
      seededStorage)) ''i2'' = Some (appleInvestment\<lparr>currentValue := - 200\<rparr>)"
    unfolding r by (simp add: getInvestment_def Map_get_Map_set c testSale_def)
  moreover have "fst (fst (postSale insertSaleSchema (-) (''s1'', 7) (''t9'', 9)
      (testSale\<lparr>saleAmount := 5800\<rparr>) seededStorage)) = 201"
    by (simp add: postSale_status insertSaleSchema_def testSale_def seededStorage_apple
        jsPlus_values)
  ultimately show ?thesis
    using c seededStorage_apple by simp
qed

text \<open>
  Claim C2. The claim is that an update touching a percentage re-validates the resulting
  pair. \<open>PUT /api/investments/:id\<close> validates each supplied field on its own and never
  the sum: on the seeded store, where \<open>i2\<close> is split 80/20, an update of
  \<open>allePercentage\<close> alone to 90 is answered 200 and stores 90/20, and an update of both
  fields to 90 and 90 is answered 200 and stores 90/90.
\<close>

theorem update_breaks_percentage_sum:
  "allePercentage appleInvestment + aliPercentage appleInvestment = 100 \<and>
   fst (fst (putInvestment (''t9'', 9) ''2026-01-01'' ''i2''
     (emptyPartial\<lparr>p_allePercentage := Some 90\<rparr>) None seededStorage)) = 200 \<and>
   getInvestment (snd (putInvestment (''t9'', 9) ''2026-01-01'' ''i2''
     (emptyPartial\<lparr>p_allePercentage := Some 90\<rparr>) None seededStorage)) ''i2'' =
     Some (appleInvestment\<lparr>allePercentage := 90\<rparr>) \<and>
   allePercentage (appleInvestment\<lparr>allePercentage := 90\<rparr>) +
     aliPercentage (appleInvestment\<lparr>allePercentage := 90\<rparr>) = 110 \<and>
   fst (fst (putInvestment (''t9'', 9) ''2026-01-01'' ''i2''
     (emptyPartial\<lparr>p_allePercentage := Some 90, p_aliPercentage := Some 90\<rparr>) None
     seededStorage)) = 200 \<and>
   getInvestment (snd (putInvestment (''t9'', 9) ''2026-01-01'' ''i2''
     (emptyPartial\<lparr>p_allePercentage := Some 90, p_aliPercentage := Some 90\<rparr>) None
     seededStorage)) ''i2'' =
     Some (appleInvestment\<lparr>allePercentage := 90, aliPercentage := 90\<rparr>)"
proof -
  let ?p = "emptyPartial\<lparr>p_allePercentage := Some 90\<rparr>"
  let ?q = "emptyPartial\<lparr>p_allePercentage := Some 90, p_aliPercentage := Some 90\<rparr>"
  have vp: "partialInvestmentSchema ?p" and vq: "partialInvestmentSchema ?q"
    by (simp_all add: partialInvestmentSchema_def emptyPartial_def inRange_def positiveOpt_def)
  note rp = putInvestment_success [OF vp seededStorage_apple, where stx = "(''t9'', 9)"
      and today = "''2026-01-01''" and updatedBy = None]
  note rq = putInvestment_success [OF vq seededStorage_apple, where stx = "(''t9'', 9)"
      and today = "''2026-01-01''" and updatedBy = None]
  have mp: "mergeInvestment appleInvestment ?p = appleInvestment\<lparr>allePercentage := 90\<rparr>"
    by (simp add: mergeInvestment_def emptyPartial_def spread_def)
  have mq: "mergeInvestment appleInvestment ?q =
      appleInvestment\<lparr>allePercentage := 90, aliPercentage := 90\<rparr>"
    by (simp add: mergeInvestment_def emptyPartial_def spread_def)
  have "fst (fst (putInvestment (''t9'', 9) ''2026-01-01'' ''i2'' ?p None seededStorage)) = 200"
    unfolding rp by simp
  moreover have "getInvestment (snd (putInvestment (''t9'', 9) ''2026-01-01'' ''i2'' ?p None
      seededStorage)) ''i2'' = Some (appleInvestment\<lparr>allePercentage := 90\<rparr>)"
    unfolding rp mp by (simp add: getInvestment_def Map_get_Map_set)
  moreover have "fst (fst (putInvestment (''t9'', 9) ''2026-01-01'' ''i2'' ?q None
      seededStorage)) = 200"
    unfolding rq by simp
  moreover have "getInvestment (snd (putInvestment (''t9'', 9) ''2026-01-01'' ''i2'' ?q None
      seededStorage)) ''i2'' = Some (appleInvestment\<lparr>allePercentage := 90, aliPercentage := 90\<rparr>)"
    unfolding rq mq by (simp add: getInvestment_def Map_get_Map_set)
  moreover have "allePercentage appleInvestment + aliPercentage appleInvestment = 100"
    "allePercentage (appleInvestment\<lparr>allePercentage := 90\<rparr>) +
     aliPercentage (appleInvestment\<lparr>allePercentage := 90\<rparr>) = 110"
    by (simp_all add: appleInvestment_def)
  ultimately show ?thesis
    by simp
qed

section \<open>The value left by a sale\<close>

text \<open>
  Claim C3. The claim is that a successful sale reduces the current value by exactly the
  sale amount. The handler subtracts in binary64 arithmetic: on the seeded store, where
  the investment \<open>i3\<close> has the current value 7589.34, a sale of 7000 is answered 201
  and leaves the binary64 value \<open>161996545678377 / 2^38\<close>, which is not 589.34 and not
  the binary64 value that 589.34 reads as; it is the one that 589.3400000000001 reads
  as. A sale of 400 from 1000 leaves exactly 600, and a sale of the whole value leaves 0.
\<close>

theorem sale_subtraction_not_exact:
  "map_option currentValue (getInvestment seededStorage ''i3'') = Some (758934 / 100) \<and>
   saleAmount largeSale = 7000 \<and>
   fst (fst (postSale insertSaleSchema jsMinus (''s1'', 7) (''t9'', 9) largeSale
     seededStorage)) = 201 \<and>
   map_option currentValue
     (getInvestment (snd (postSale insertSaleSchema jsMinus (''s1'', 7) (''t9'', 9) largeSale
        seededStorage)) ''i3'') = Some (161996545678377 / 2 ^ 38) \<and>
   (161996545678377 / 2 ^ 38 :: rat) \<noteq> 758934 / 100 - 7000 \<and>
   binary64 (58934 / 100) \<noteq> 161996545678377 / 2 ^ 38 \<and>
   binary64 (5893400000000001 / 10 ^ 13) = 161996545678377 / 2 ^ 38 \<and>
   jsMinus 1000 400 = 600 \<and>
   jsMinus 5800 5800 = 0"
proof -
  obtain world where w: "getInvestment seededStorage ''i3'' = Some world"
      "currentValue world = 758934 / 100"
    by (simp add: getInvestment_def Map_get_def seededStorage_investments)
  have v: "insertSaleSchema largeSale"
      "jsPlus (sale_allePercentage largeSale) (sale_aliPercentage largeSale) = 100"
      "getInvestment seededStorage (sale_investmentId largeSale) = Some world"
    by (simp_all add: insertSaleSchema_def largeSale_def testSale_def jsPlus_values w)
  note r = postSale_success [where schema = insertSaleSchema and b = largeSale
      and sub = jsMinus and ss = "(''s1'', 7)" and stx = "(''t9'', 9)", OF v]
  have d: "jsMinus (758934 / 100) 7000 = 161996545678377 / 2 ^ 38"
    by code_simp
  have a: "saleAmount largeSale = 7000" "sale_investmentId largeSale = ''i3''"
    by (simp_all add: largeSale_def testSale_def)
  have "map_option currentValue (getInvestment seededStorage ''i3'') = Some (758934 / 100)"
    using w by simp
  moreover have "fst (fst (postSale insertSaleSchema jsMinus (''s1'', 7) (''t9'', 9) largeSale
      seededStorage)) = 201"
    unfolding r by simp
  moreover have "map_option currentValue
     (getInvestment (snd (postSale insertSaleSchema jsMinus (''s1'', 7) (''t9'', 9) largeSale
        seededStorage)) ''i3'') = Some (161996545678377 / 2 ^ 38)"
    unfolding r a w(2) d by (simp add: getInvestment_def Map_get_Map_set)
  moreover have "(161996545678377 / 2 ^ 38 :: rat) \<noteq> 758934 / 100 - 7000"
    by simp
  moreover have "binary64 (58934 / 100) \<noteq> 161996545678377 / 2 ^ 38"
    by code_simp
  moreover have "binary64 (5893400000000001 / 10 ^ 13) = 161996545678377 / 2 ^ 38"
    by code_simp
  moreover have "jsMinus 1000 400 = 600" "jsMinus 5800 5800 = 0"
    by code_simp+
  ultimately show ?thesis
    using a(1) by simp
qed

section \<open>The audit trail\<close>

text \<open>
  Claim C5. When the identifier drawn for the transaction is not yet in use, every
  successful mutating route leaves the transactions of the store as they were, with
  exactly one entry appended. For \<open>POST /api/investments\<close> (201) it is a purchase
  (\<open>Acquisto\<close>) whose amount is the initial value and whose date is the purchase date;
  for \<open>PUT /api/investments/:id\<close> (200) an edit (\<open>Modifica\<close>) whose amount is the
  current value of the investment as stored after the update, dated today; for
  \<open>DELETE /api/investments/:id\<close> (200) a deletion (\<open>Eliminazione\<close>) of amount 0, dated
  today; for \<open>POST /api/sales\<close> (201) a sale (\<open>Vendita\<close>) whose amount is the sale
  amount and whose date is the sale date.
\<close>

theorem one_transaction_per_mutation:
  assumes fresh: "\<not> Map_has (transactions st) (fst stx)"
  shows
  "(fst (fst (postInvestment si stx b st)) = 201 \<longrightarrow>
      (\<exists>t. transactions (snd (postInvestment si stx b st)) = transactions st @ [(fst stx, t)] \<and>
           action t = ''Acquisto'' \<and> amount t = initialValue b \<and> date t = purchaseDate b)) \<and>
   (fst (fst (putInvestment stx today i p updatedBy st)) = 200 \<longrightarrow>
      (\<exists>t updated.
           transactions (snd (putInvestment stx today i p updatedBy st)) =
             transactions st @ [(fst stx, t)] \<and>
           getInvestment (snd (putInvestment stx today i p updatedBy st)) i = Some updated \<and>
           action t = ''Modifica'' \<and> amount t = currentValue updated \<and> date t = today)) \<and>
   (fst (fst (deleteInvestmentRoute stx today i deletedBy st)) = 200 \<longrightarrow>
      (\<exists>t. transactions (snd (deleteInvestmentRoute stx today i deletedBy st)) =
             transactions st @ [(fst stx, t)] \<and>
           action t = ''Eliminazione'' \<and> amount t = 0 \<and> date t = today)) \<and>
   (fst (fst (postSale schema sub ss stx sb st)) = 201 \<longrightarrow>
      (\<exists>t. transactions (snd (postSale schema sub ss stx sb st)) =
             transactions st @ [(fst stx, t)] \<and>
           action t = ''Vendita'' \<and> amount t = saleAmount sb \<and> date t = saleDate sb))"
proof (intro conjI impI)
  assume "fst (fst (postInvestment si stx b st)) = 201"
  then have "insertInvestmentSchema b" "jsPlus (allePercentage b) (aliPercentage b) = 100"
    by (simp_all add: postInvestment_status split: if_splits)
  then show "\<exists>t. transactions (snd (postInvestment si stx b st)) =
        transactions st @ [(fst stx, t)] \<and>
      action t = ''Acquisto'' \<and> amount t = initialValue b \<and> date t = purchaseDate b"
    using fresh by (simp add: postInvestment_success Map_set_fresh stored_fields)
next
  assume "fst (fst (putInvestment stx today i p updatedBy st)) = 200"
  then obtain old where "partialInvestmentSchema p" "getInvestment st i = Some old"
    by (auto simp: putInvestment_status split: if_splits)
  then show "\<exists>t updated.
      transactions (snd (putInvestment stx today i p updatedBy st)) =
        transactions st @ [(fst stx, t)] \<and>
      getInvestment (snd (putInvestment stx today i p updatedBy st)) i = Some updated \<and>
      action t = ''Modifica'' \<and> amount t = currentValue updated \<and> date t = today"
    using fresh
    by (simp add: putInvestment_success Map_set_fresh stored_fields getInvestment_def
        Map_get_Map_set)
next
  assume "fst (fst (deleteInvestmentRoute stx today i deletedBy st)) = 200"
  then obtain old where "getInvestment st i = Some old"
    by (auto simp: deleteInvestmentRoute_status split: if_splits)
  then show "\<exists>t. transactions (snd (deleteInvestmentRoute stx today i deletedBy st)) =
        transactions st @ [(fst stx, t)] \<and>
      action t = ''Eliminazione'' \<and> amount t = 0 \<and> date t = today"
    using fresh by (simp add: deleteInvestmentRoute_success Map_set_fresh stored_fields)
next
  assume "fst (fst (postSale schema sub ss stx sb st)) = 201"
  then obtain old where "schema sb"
      "jsPlus (sale_allePercentage sb) (sale_aliPercentage sb) = 100"
      "getInvestment st (sale_investmentId sb) = Some old"
    by (auto simp: postSale_status split: if_splits)
  then show "\<exists>t. transactions (snd (postSale schema sub ss stx sb st)) =
        transactions st @ [(fst stx, t)] \<and>
      action t = ''Vendita'' \<and> amount t = saleAmount sb \<and> date t = saleDate sb"
    using fresh by (simp add: postSale_success Map_set_fresh stored_fields)
qed

theorem one_transaction_per_mutation_witness:
  "\<not> Map_has (transactions seededStorage) ''t9'' \<and>
   fst (fst (postInvestment (''i9'', 8) (''t9'', 9) testInvestment seededStorage)) = 201 \<and>
   (\<exists>t. transactions (snd (postInvestment (''i9'', 8) (''t9'', 9) testInvestment seededStorage)) =
          transactions seededStorage @ [(''t9'', t)] \<and>
        action t = ''Acquisto'' \<and> amount t = 1000 \<and> date t = ''2024-01-01'') \<and>
   fst (fst (putInvestment (''t9'', 9) ''2026-01-01'' ''i2''
          (emptyPartial\<lparr>p_currentValue := Some 6000\<rparr>) None seededStorage)) = 200 \<and>
   (\<exists>t. transactions (snd (putInvestment (''t9'', 9) ''2026-01-01'' ''i2''
          (emptyPartial\<lparr>p_currentValue := Some 6000\<rparr>) None seededStorage)) =
          transactions seededStorage @ [(''t9'', t)] \<and>
        action t = ''Modifica'' \<and> date t = ''2026-01-01'') \<and>
   fst (fst (deleteInvestmentRoute (''t9'', 9) ''2026-01-01'' ''i2'' None seededStorage)) = 200 \<and>
   (\<exists>t. transactions (snd (deleteInvestmentRoute (''t9'', 9) ''2026-01-01'' ''i2'' None
          seededStorage)) = transactions seededStorage @ [(''t9'', t)] \<and>
        action t = ''Eliminazione'' \<and> amount t = 0 \<and> date t = ''2026-01-01'') \<and>
   fst (fst (postSale insertSaleSchema (-) (''s1'', 7) (''t9'', 9) testSale seededStorage)) = 201 \<and>
   (\<exists>t. transactions (snd (postSale insertSaleSchema (-) (''s1'', 7) (''t9'', 9) testSale
          seededStorage)) = transactions seededStorage @ [(''t9'', t)] \<and>
        action t = ''Vendita'' \<and> amount t = 400 \<and> date t = ''2024-02-01'')"
proof -
  have fresh: "\<not> Map_has (transactions seededStorage) (fst (''t9'', 9::nat))"
    by (simp add: seededStorage_fresh_t9)
  have s1: "fst (fst (postInvestment (''i9'', 8) (''t9'', 9) testInvestment seededStorage)) = 201"
    by (simp add: postInvestment_status testInvestment_valid)
  have s2: "fst (fst (putInvestment (''t9'', 9) ''2026-01-01'' ''i2''
          (emptyPartial\<lparr>p_currentValue := Some 6000\<rparr>) None seededStorage)) = 200"
    by (simp add: putInvestment_status seededStorage_apple partialInvestmentSchema_def
        emptyPartial_def inRange_def positiveOpt_def)
  have s3: "fst (fst (deleteInvestmentRoute (''t9'', 9) ''2026-01-01'' ''i2'' None
          seededStorage)) = 200"
    by (simp add: deleteInvestmentRoute_status seededStorage_apple)
  have s4: "fst (fst (postSale insertSaleSchema (-) (''s1'', 7) (''t9'', 9) testSale
          seededStorage)) = 201"
    by (simp add: postSale_status testSale_valid seededStorage_apple)
  have v: "initialValue testInvestment = 1000" "purchaseDate testInvestment = ''2024-01-01''"
      "saleAmount testSale = 400" "saleDate testSale = ''2024-02-01''"
    by (simp_all add: testInvestment_def testSale_def)
  note T = one_transaction_per_mutation [OF fresh, where si = "(''i9'', 8)"
      and b = testInvestment and today = "''2026-01-01''" and i = "''i2''"
      and p = "emptyPartial\<lparr>p_currentValue := Some 6000\<rparr>" and updatedBy = None
      and deletedBy = None and schema = insertSaleSchema and sub = "(-)"
      and ss = "(''s1'', 7)" and sb = testSale]
  show ?thesis
    using T s1 s2 s3 s4 v seededStorage_fresh_t9 by auto
qed

section \<open>Frame of a sale\<close>

text \<open>
  Claim C6. After a successful \<open>POST /api/sales\<close> (201) the referenced investment is
  still stored under the same identifier, and it is the record it was with only
  \<open>currentValue\<close> replaced: both ownership percentages, the identifier and every other
  field are those from before the sale. The keys of the investment map and every other
  investment are unchanged.
\<close>

theorem sale_keeps_investment:
  assumes "fst (fst (postSale schema sub ss stx b st)) = 201"
  shows "\<exists>old new.
     getInvestment st (sale_investmentId b) = Some old \<and>
     getInvestment (snd (postSale schema sub ss stx b st)) (sale_investmentId b) = Some new \<and>
     new = old\<lparr>currentValue := sub (currentValue old) (saleAmount b)\<rparr> \<and>
     allePercentage new = allePercentage old \<and> aliPercentage new = aliPercentage old \<and>
     investment_id new = investment_id old \<and>
     map fst (investments (snd (postSale schema sub ss stx b st))) = map fst (investments st) \<and>
     (\<forall>j. j \<noteq> sale_investmentId b \<longrightarrow>
        getInvestment (snd (postSale schema sub ss stx b st)) j = getInvestment st j)"
proof -
  from assms obtain old where ok: "schema b"
      "jsPlus (sale_allePercentage b) (sale_aliPercentage b) = 100"
      "getInvestment st (sale_investmentId b) = Some old"
    by (auto simp: postSale_status split: if_splits)
  then have has: "Map_has (investments st) (sale_investmentId b)"
    by (auto simp: getInvestment_def intro: Map_get_has)
  let ?new = "old\<lparr>currentValue := sub (currentValue old) (saleAmount b)\<rparr>"
  have inv: "investments (snd (postSale schema sub ss stx b st)) =
      Map_set (sale_investmentId b) ?new (investments st)"
    using ok by (simp add: postSale_success)
  have "getInvestment (snd (postSale schema sub ss stx b st)) (sale_investmentId b) = Some ?new"
    by (simp add: getInvestment_def inv Map_get_Map_set)
  moreover have "map fst (investments (snd (postSale schema sub ss stx b st))) =
      map fst (investments st)"
    by (simp add: inv Map_set_keys [OF has])
  moreover have "\<forall>j. j \<noteq> sale_investmentId b \<longrightarrow>
      getInvestment (snd (postSale schema sub ss stx b st)) j = getInvestment st j"
    by (simp add: getInvestment_def inv Map_get_Map_set)
  ultimately show ?thesis
    using ok(3) by simp
qed

theorem sale_keeps_investment_witness:
  "fst (fst (postSale insertSaleSchema (-) (''s1'', 7) (''t9'', 9) testSale seededStorage)) = 201 \<and>
   getInvestment seededStorage ''i2'' = Some appleInvestment \<and>
   getInvestment (snd (postSale insertSaleSchema (-) (''s1'', 7) (''t9'', 9) testSale
      seededStorage)) ''i2'' = Some (appleInvestment\<lparr>currentValue := 5400\<rparr>) \<and>
   map fst (investments (snd (postSale insertSaleSchema (-) (''s1'', 7) (''t9'', 9) testSale
      seededStorage))) = [''i1'', ''i2'', ''i3'']"
proof -
  have s: "fst (fst (postSale insertSaleSchema (-) (''s1'', 7) (''t9'', 9) testSale
      seededStorage)) = 201"
    by (simp add: postSale_status testSale_valid seededStorage_apple)
  have v: "currentValue appleInvestment - saleAmount testSale = 5400"
    by (simp add: appleInvestment_def testSale_def)
  have k: "map fst (investments seededStorage) = [''i1'', ''i2'', ''i3'']"
    by (simp add: seededStorage_investments)
  show ?thesis
    using sale_keeps_investment [OF s] s v k seededStorage_apple testSale_valid(3)
    by auto
qed

section \<open>Deleting an investment\<close>

text \<open>
  Claim C7. \<open>DELETE /api/investments/:id\<close> for an identifier that no investment has
  answers 404 and returns the store as it was, so no transaction is created. When the
  investment exists, the route answers 200, the investment is gone, and the transaction
  stored under the drawn identifier is a deletion that carries the name the investment
  had before it was removed.
\<close>

theorem delete_route_not_found_and_snapshot:
  "(getInvestment st i = None \<longrightarrow>
      deleteInvestmentRoute stx today i deletedBy st = ((404, Message notFoundMessage), st)) \<and>
   (getInvestment st i = Some old \<longrightarrow>
      fst (fst (deleteInvestmentRoute stx today i deletedBy st)) = 200 \<and>
      getInvestment (snd (deleteInvestmentRoute stx today i deletedBy st)) i = None \<and>
      (\<exists>t. Map_get (transactions (snd (deleteInvestmentRoute stx today i deletedBy st)))
              (fst stx) = Some t \<and>
           action t = ''Eliminazione'' \<and> investmentName t = name old \<and>
           investmentId t = Some i))"
proof (intro conjI impI)
  assume "getInvestment st i = None"
  then show "deleteInvestmentRoute stx today i deletedBy st = ((404, Message notFoundMessage), st)"
    by (simp add: deleteInvestmentRoute_def)
next
  assume a: "getInvestment st i = Some old"
  then have h: "Map_has (investments st) i"
    by (auto simp: getInvestment_def intro: Map_get_has)
  let ?t = "stored stx
       \<lparr>action = ''Eliminazione'', investmentId = Some i, investmentName = name old,
        amount = 0, date = today, userId = orElse deletedBy (createdBy old)\<rparr>"
  have r: "deleteInvestmentRoute stx today i deletedBy st =
      ((200, Message ''Investimento eliminato con successo''),
       st\<lparr>investments := Map_delete i (investments st),
          transactions := Map_set (fst stx) ?t (transactions st)\<rparr>)"
    using a h
    by (simp add: deleteInvestmentRoute_def deleteInvestment_def createTransaction_def
        Let_def stored_def)
  show "fst (fst (deleteInvestmentRoute stx today i deletedBy st)) = 200"
    by (simp add: r)
  show "getInvestment (snd (deleteInvestmentRoute stx today i deletedBy st)) i = None"
    by (simp add: r getInvestment_def Map_get_Map_delete)
  show "\<exists>t. Map_get (transactions (snd (deleteInvestmentRoute stx today i deletedBy st)))
              (fst stx) = Some t \<and>
           action t = ''Eliminazione'' \<and> investmentName t = name old \<and>
           investmentId t = Some i"
    by (simp add: r Map_get_Map_set ext_defs stored_def)
qed

theorem delete_route_witness:
  "getInvestment seededStorage ''i9'' = None \<and>
   deleteInvestmentRoute (''t9'', 9) ''2026-01-01'' ''i9'' None seededStorage =
     ((404, Message notFoundMessage), seededStorage) \<and>
   getInvestment seededStorage ''i2'' = Some appleInvestment \<and>
   fst (fst (deleteInvestmentRoute (''t9'', 9) ''2026-01-01'' ''i2'' None seededStorage)) = 200 \<and>
   (\<exists>t. Map_get (transactions (snd (deleteInvestmentRoute (''t9'', 9) ''2026-01-01'' ''i2''
            None seededStorage))) ''t9'' = Some t \<and> investmentName t = ''Apple Inc.'')"
proof -
  have c: "name appleInvestment = ''Apple Inc.''"
    by (simp add: appleInvestment_def)
  show ?thesis
    using seededStorage_no_i9 seededStorage_apple c
      delete_route_not_found_and_snapshot [where st = seededStorage and i = "''i9''"
        and stx = "(''t9'', 9)" and today = "''2026-01-01''" and deletedBy = None]
      delete_route_not_found_and_snapshot [where st = seededStorage and i = "''i2''"
        and stx = "(''t9'', 9)" and today = "''2026-01-01''" and deletedBy = None
        and old = appleInvestment]
    by auto
qed

section \<open>Login\<close>

text \<open>
  Claim C8. For a request that supplies a username (a missing or empty one is answered
  400 before any lookup): when the lookup by username finds a user whose role is
  \<open>viewer\<close>, \<open>POST /api/auth/login\<close> answers 200 with that user, with no password
  in the request and with any other; when it finds a user whose role is \<open>admin\<close>, the
  answer is 401 whenever the supplied password is missing (absent or empty, the
  handler's \<open>!password\<close>) or differs from the stored one, and 200 with the user when a
  password is supplied and equals the stored one; when it finds no user the answer is 401.
\<close>

theorem login_rules:
  assumes "n \<noteq> []"
  shows
  "(getUserByUsername st n = None \<longrightarrow>
      login (Some n) pw st = (401, Message ''Credenziali non valide'')) \<and>
   (getUserByUsername st n = Some u \<and> role u = ''viewer'' \<longrightarrow>
      login (Some n) None st = (200, UserBody u) \<and> login (Some n) pw st = (200, UserBody u)) \<and>
   (getUserByUsername st n = Some u \<and> role u = ''admin'' \<and>
    (falsy pw \<or> pw \<noteq> password u) \<longrightarrow>
      login (Some n) pw st = (401, Message ''Credenziali non valide'')) \<and>
   (getUserByUsername st n = Some u \<and> role u = ''admin'' \<and>
    \<not> falsy pw \<and> pw = password u \<longrightarrow>
      login (Some n) pw st = (200, UserBody u))"
  using assms by (auto simp: login_def authenticateUser_def)

theorem login_rules_witness:
  "getUserByUsername seededStorage ''bob'' = None \<and>
   login (Some ''bob'') None seededStorage = (401, Message ''Credenziali non valide'') \<and>
   login (Some ''ali'') None seededStorage =
     (200, UserBody \<lparr>username = ''ali'', displayName = ''Ali'', role = ''viewer'',
         password = None, user_id = ''u2''\<rparr>) \<and>
   login (Some ''alle'') None seededStorage = (401, Message ''Credenziali non valide'') \<and>
   login (Some ''alle'') (Some ''wrong'') seededStorage =
     (401, Message ''Credenziali non valide'') \<and>
   login (Some ''alle'') (Some ''admin123'') seededStorage =
     (200, UserBody \<lparr>username = ''alle'', displayName = ''Alle'', role = ''admin'',
         password = Some ''admin123'', user_id = ''u1''\<rparr>)"
proof -
  let ?alle = "\<lparr>username = ''alle'', displayName = ''Alle'', role = ''admin'',
         password = Some ''admin123'', user_id = ''u1''\<rparr>"
  let ?ali = "\<lparr>username = ''ali'', displayName = ''Ali'', role = ''viewer'',
         password = None, user_id = ''u2''\<rparr>"
  have n: "''bob'' \<noteq> []" "''ali'' \<noteq> []" "''alle'' \<noteq> []"
    by simp_all
  have a: "login (Some ''bob'') None seededStorage = (401, Message ''Credenziali non valide'')"
    using login_rules [OF n(1), where st = seededStorage and pw = None]
    by (simp add: seededStorage_lookup)
  have b: "login (Some ''ali'') None seededStorage = (200, UserBody ?ali)"
    using login_rules [OF n(2), where st = seededStorage and pw = None and u = ?ali]
    by (simp add: seededStorage_lookup)
  have c: "login (Some ''alle'') None seededStorage = (401, Message ''Credenziali non valide'')"
    using login_rules [OF n(3), where st = seededStorage and pw = None and u = ?alle]
    by (simp add: seededStorage_lookup falsy_def)
  have d: "login (Some ''alle'') (Some ''wrong'') seededStorage =
      (401, Message ''Credenziali non valide'')"
    using login_rules [OF n(3), where st = seededStorage and pw = "Some ''wrong''" and u = ?alle]
    by (simp add: seededStorage_lookup falsy_def)
  have e: "login (Some ''alle'') (Some ''admin123'') seededStorage = (200, UserBody ?alle)"
    using login_rules [OF n(3), where st = seededStorage and pw = "Some ''admin123''"
        and u = ?alle]
    by (simp add: seededStorage_lookup falsy_def)
  show ?thesis
    using a b c d e by (simp add: seededStorage_lookup)
qed

section \<open>What the user routes return\<close>

text \<open>
  Claim C10. \<open>GET /api/users\<close> answers 200 with the stored user records as they are,
  and a successful login answers with one of the stored records, in both cases with the
  \<open>password\<close> field. Neither route takes any credential of the caller for the listing.
  For the store that the constructor seeds (with two distinct user identifiers) the
  listing is the administrator with the password \<open>admin123\<close> followed by the viewer,
  and the viewer logs in without a password.
\<close>

theorem users_returned_with_passwords:
  "getUsers st = (200, UsersBody (Map_values (users st))) \<and>
   (login un pw st = (200, b) \<longrightarrow> (\<exists>u \<in> set (Map_values (users st)). b = UserBody u)) \<and>
   (u1 \<noteq> u2 \<longrightarrow>
      getUsers (initializeDefaultData u1 u2 s1 s2 s3) =
        (200, UsersBody
          [\<lparr>username = ''alle'', displayName = ''Alle'', role = ''admin'',
             password = Some ''admin123'', user_id = u1\<rparr>,
           \<lparr>username = ''ali'', displayName = ''Ali'', role = ''viewer'',
             password = None, user_id = u2\<rparr>]) \<and>
      login (Some ''ali'') None (initializeDefaultData u1 u2 s1 s2 s3) =
        (200, UserBody \<lparr>username = ''ali'', displayName = ''Ali'', role = ''viewer'',
             password = None, user_id = u2\<rparr>))"
proof (intro conjI impI)
  show "getUsers st = (200, UsersBody (Map_values (users st)))"
    by (simp add: getUsers_def getAllUsers_def)
next
  assume "login un pw st = (200, b)"
  then obtain n u where "authenticateUser st n pw = Some u" "b = UserBody u"
    by (auto simp: login_def split: option.splits if_splits)
  then show "\<exists>u \<in> set (Map_values (users st)). b = UserBody u"
    using authenticateUser_stored by blast
next
  assume d: "u1 \<noteq> u2"
  show "getUsers (initializeDefaultData u1 u2 s1 s2 s3) =
        (200, UsersBody
          [\<lparr>username = ''alle'', displayName = ''Alle'', role = ''admin'',
             password = Some ''admin123'', user_id = u1\<rparr>,
           \<lparr>username = ''ali'', displayName = ''Ali'', role = ''viewer'',
             password = None, user_id = u2\<rparr>])"
    by (simp add: getUsers_def getAllUsers_def Map_values_def initializeDefaultData_users [OF d])
  show "login (Some ''ali'') None (initializeDefaultData u1 u2 s1 s2 s3) =
        (200, UserBody \<lparr>username = ''ali'', displayName = ''Ali'', role = ''viewer'',
             password = None, user_id = u2\<rparr>)"
    by (simp add: login_def authenticateUser_def getUserByUsername_def Map_values_def
        initializeDefaultData_users [OF d])
qed

theorem users_returned_with_passwords_witness:
  "login (Some ''alle'') (Some ''admin123'') seededStorage =
     (200, UserBody \<lparr>username = ''alle'', displayName = ''Alle'', role = ''admin'',
         password = Some ''admin123'', user_id = ''u1''\<rparr>) \<and>
   \<lparr>username = ''alle'', displayName = ''Alle'', role = ''admin'',
         password = Some ''admin123'', user_id = ''u1''\<rparr> \<in> set (Map_values (users seededStorage)) \<and>
   ''u1'' \<noteq> ''u2'' \<and>
   getUsers seededStorage =
     (200, UsersBody
       [\<lparr>username = ''alle'', displayName = ''Alle'', role = ''admin'',
          password = Some ''admin123'', user_id = ''u1''\<rparr>,
        \<lparr>username = ''ali'', displayName = ''Ali'', role = ''viewer'',
          password = None, user_id = ''u2''\<rparr>])"
proof -
  let ?alle = "\<lparr>username = ''alle'', displayName = ''Alle'', role = ''admin'',
         password = Some ''admin123'', user_id = ''u1''\<rparr>"
  have l: "login (Some ''alle'') (Some ''admin123'') seededStorage = (200, UserBody ?alle)"
    by (simp add: login_def authenticateUser_def seededStorage_lookup falsy_def)
  have d: "''u1'' \<noteq> ''u2''"
    by simp
  note T = users_returned_with_passwords [where st = seededStorage and un = "Some ''alle''"
      and pw = "Some ''admin123''" and b = "UserBody ?alle" and ?u1.0 = "''u1''"
      and ?u2.0 = "''u2''" and ?s1.0 = "((''i1'', 1), (''t1'', 2))"
      and ?s2.0 = "((''i2'', 3), (''t2'', 4))" and ?s3.0 = "((''i3'', 5), (''t3'', 6))"]
  show ?thesis
    using T l d by (auto simp: seededStorage_def)
qed

section \<open>Sorted listings\<close>

text \<open>
  Claim C9, as amended. \<open>getAllTransactions\<close> and \<open>getAllSales\<close> (the bodies of
  \<open>GET /api/transactions\<close> and \<open>GET /api/sales\<close>) return every stored entry exactly
  once, and whenever every stored date string is a date (has a time), the result is
  sorted descending by the transaction date, respectively the sale date.
\<close>

theorem listings_sorted_when_dates_parse:
  "mset (getAllTransactions getTime st) = mset (Map_values (transactions st)) \<and>
   mset (getAllSales getTime st) = mset (Map_values (sales st)) \<and>
   ((\<forall>t \<in> set (Map_values (transactions st)). getTime (date t) \<noteq> None) \<longrightarrow>
      sortedDesc getTime date (getAllTransactions getTime st)) \<and>
   ((\<forall>s \<in> set (Map_values (sales st)). getTime (saleDate s) \<noteq> None) \<longrightarrow>
      sortedDesc getTime saleDate (getAllSales getTime st))"
  by (simp add: getAllTransactions_def getAllSales_def mset_Array_sort sortedDesc_Array_sort)

theorem listings_sorted_witness:
  "sortedDesc knownDates date (getAllTransactions knownDates twoSales) \<and>
   sortedDesc knownDates saleDate (getAllSales knownDates twoSales) \<and>
   map date (Map_values (transactions twoSales)) =
     [''2023-06-15'', ''2023-08-20'', ''2023-09-10'', ''2024-01-01'', ''2024-02-01''] \<and>
   map saleDate (Map_values (sales twoSales)) = [''2024-01-01'', ''2024-02-01'']"
proof -
  have d: "map date (Map_values (transactions twoSales)) =
     [''2023-06-15'', ''2023-08-20'', ''2023-09-10'', ''2024-01-01'', ''2024-02-01'']"
    using twoSales_transactions by (simp add: Map_values_def comp_def)
  have s: "map saleDate (Map_values (sales twoSales)) = [''2024-01-01'', ''2024-02-01'']"
    using twoSales_sales by (simp add: Map_values_def comp_def)
  have "\<forall>x \<in> set (map date (Map_values (transactions twoSales))). knownDates x \<noteq> None"
    unfolding d by (simp add: knownDates_def)
  then have h1: "\<forall>t \<in> set (Map_values (transactions twoSales)). knownDates (date t) \<noteq> None"
    by simp
  have "\<forall>x \<in> set (map saleDate (Map_values (sales twoSales))). knownDates x \<noteq> None"
    unfolding s by (simp add: knownDates_def)
  then have h2: "\<forall>s \<in> set (Map_values (sales twoSales)). knownDates (saleDate s) \<noteq> None"
    by simp
  show ?thesis
    using listings_sorted_when_dates_parse [where getTime = knownDates and st = twoSales]
      h1 h2 d s by simp
qed

text \<open>
  Claim C9 as stated, for every state of the store, fails: a purchase date is any
  string, and a string that is not a date makes the comparator return \<open>NaN\<close>, which the
  sort takes for equal. After the seeding and purchases dated \<open>soon\<close>, \<open>2023-01-01\<close>,
  \<open>2022-01-01\<close> and \<open>2024-01-01\<close> the listing has the entry of 2024-01-01 behind the
  three entries of 2023 that the seeding made.
\<close>

theorem listing_not_sorted:
  "map date (getAllTransactions knownDates fourPurchases) =
     [''2023-09-10'', ''2023-08-20'', ''2023-06-15'', ''soon'', ''2024-01-01'',
      ''2023-01-01'', ''2022-01-01''] \<and>
   \<not> sortedDesc knownDates date (getAllTransactions knownDates fourPurchases)"
proof -
  have l: "map date (getAllTransactions knownDates fourPurchases) =
     [''2023-09-10'', ''2023-08-20'', ''2023-06-15'', ''soon'', ''2024-01-01'',
      ''2023-01-01'', ''2022-01-01'']"
    by (simp add: fourPurchases_transactions seededStorage_transactions getAllTransactions_def
        Array_sort_def CountAndMakeRun_def Compare_def byDateDesc_def knownDates_def
        Map_values_def stored_fields binaryInsert.simps Let_def)
  let ?R = "\<lambda>a b. case (knownDates a, knownDates b) of
      (Some ta, Some tb) \<Rightarrow> tb \<le> ta | _ \<Rightarrow> True"
  have "\<not> sortedDesc knownDates date (getAllTransactions knownDates fourPurchases)"
  proof
    assume "sortedDesc knownDates date (getAllTransactions knownDates fourPurchases)"
    then have "sorted_wrt ?R (map date (getAllTransactions knownDates fourPurchases))"
      by (simp add: sortedDesc_def sorted_wrt_map)
    then have "sorted_wrt ?R [''2023-09-10'', ''2023-08-20'', ''2023-06-15'', ''soon'',
        ''2024-01-01'', ''2023-01-01'', ''2022-01-01'']"
      unfolding l .
    then have "?R ''2023-09-10'' ''2024-01-01''"
      by simp
    then show False
      by (simp add: knownDates_def)
  qed
  then show ?thesis
    using l by simp
qed

end
